theory Spec2Isabelle
  imports Complex_Main "HOL-Library.Word"
begin

section \<open>Doubles with their special values\<close>

text \<open>
  The library computes on C++ \<^verbatim>\<open>double\<close>. Where a property turns on the special values
  (infinities, NaN, a division by zero) an ordinate is a \<open>double\<close>: a finite value, held
  as the real number it denotes, or one of the three special values. Rounding and the
  sign of zero are not represented. Where a property is geometric the ordinates are
  real numbers, and every division and square root of the code is then guarded by the
  code itself.
\<close>

datatype double = Fin real | PInf | NInf | NaN

text \<open>The comparisons \<^verbatim>\<open><\<close> and \<^verbatim>\<open>==\<close> of IEEE 754: every comparison with NaN is false.\<close>

fun dless :: "double \<Rightarrow> double \<Rightarrow> bool" where
  "dless NaN _ = False"
| "dless _ NaN = False"
| "dless (Fin a) (Fin b) = (a < b)"
| "dless (Fin _) PInf = True"
| "dless NInf (Fin _) = True"
| "dless NInf PInf = True"
| "dless _ _ = False"

fun deq :: "double \<Rightarrow> double \<Rightarrow> bool" where
  "deq NaN _ = False"
| "deq _ NaN = False"
| "deq a b = (a = b)"

instantiation double :: ord
begin

definition less_double :: "double \<Rightarrow> double \<Rightarrow> bool" where
  "less_double a b = dless a b"

definition less_eq_double :: "double \<Rightarrow> double \<Rightarrow> bool" where
  "less_eq_double a b = (dless a b \<or> deq a b)"

instance ..

end

text \<open>
  Arithmetic on doubles: exact on finite values, with the IEEE 754 rules for the special
  values (\<open>\<infinity> - \<infinity>\<close>, \<open>0 \<times> \<infinity>\<close>, \<open>0 / 0\<close> and \<open>\<infinity> / \<infinity>\<close> are NaN; a non-zero value
  divided by zero is an infinity; NaN propagates). A zero divisor is taken as \<open>+0\<close>.
\<close>

fun dneg :: "double \<Rightarrow> double" where
  "dneg (Fin a) = Fin (- a)"
| "dneg PInf = NInf"
| "dneg NInf = PInf"
| "dneg NaN = NaN"

fun dadd :: "double \<Rightarrow> double \<Rightarrow> double" where
  "dadd NaN _ = NaN"
| "dadd _ NaN = NaN"
| "dadd (Fin a) (Fin b) = Fin (a + b)"
| "dadd PInf NInf = NaN"
| "dadd NInf PInf = NaN"
| "dadd PInf _ = PInf"
| "dadd _ PInf = PInf"
| "dadd NInf _ = NInf"
| "dadd _ NInf = NInf"

text \<open>The sign of a double that is not NaN: \<open>-1\<close>, \<open>0\<close> or \<open>1\<close>.\<close>

fun dsign :: "double \<Rightarrow> int" where
  "dsign (Fin a) = (if a < 0 then - 1 else if a = 0 then 0 else 1)"
| "dsign PInf = 1"
| "dsign NInf = - 1"
| "dsign NaN = 0"

definition signed_inf :: "int \<Rightarrow> double" where
  "signed_inf s = (if s < 0 then NInf else PInf)"

fun dmul :: "double \<Rightarrow> double \<Rightarrow> double" where
  "dmul NaN _ = NaN"
| "dmul _ NaN = NaN"
| "dmul (Fin a) (Fin b) = Fin (a * b)"
| "dmul a b = (if dsign a * dsign b = 0 then NaN else signed_inf (dsign a * dsign b))"

fun ddiv :: "double \<Rightarrow> double \<Rightarrow> double" where
  "ddiv NaN _ = NaN"
| "ddiv _ NaN = NaN"
| "ddiv (Fin a) (Fin b) =
     (if b \<noteq> 0 then Fin (a / b) else if a = 0 then NaN else signed_inf (dsign (Fin a)))"
| "ddiv (Fin a) _ = Fin 0"
| "ddiv a (Fin b) = signed_inf (dsign a * (if b < 0 then - 1 else 1))"
| "ddiv _ _ = NaN"

fun dsqrt :: "double \<Rightarrow> double" where
  "dsqrt (Fin a) = (if a < 0 then NaN else Fin (sqrt a))"
| "dsqrt PInf = PInf"
| "dsqrt _ = NaN"

instantiation double :: "{zero, one, plus, minus, uminus, times, inverse}"
begin

definition zero_double :: double where "zero_double = Fin 0"

definition one_double :: double where "one_double = Fin 1"

definition plus_double :: "double \<Rightarrow> double \<Rightarrow> double" where
  "plus_double a b = dadd a b"

definition minus_double :: "double \<Rightarrow> double \<Rightarrow> double" where
  "minus_double a b = dadd a (dneg b)"

definition uminus_double :: "double \<Rightarrow> double" where
  "uminus_double a = dneg a"

definition times_double :: "double \<Rightarrow> double \<Rightarrow> double" where
  "times_double a b = dmul a b"

definition divide_double :: "double \<Rightarrow> double \<Rightarrow> double" where
  "divide_double a b = ddiv a b"

definition inverse_double :: "double \<Rightarrow> double" where
  "inverse_double a = ddiv (Fin 1) a"

instance ..

end

text \<open>\<^verbatim>\<open>std::numeric_limits<double>::max()\<close>, the largest finite double; \<^verbatim>\<open>lowest()\<close> is its
  negation.\<close>

definition dbl_max :: real where
  "dbl_max = (2 ^ 53 - 1) * 2 ^ 971"

definition is_finite :: "double \<Rightarrow> bool" where
  "is_finite d = (case d of Fin r \<Rightarrow> \<bar>r\<bar> \<le> dbl_max | _ \<Rightarrow> False)"

section \<open>Math helpers (sgl.hpp, namespace math)\<close>

text \<open>The templates \<^verbatim>\<open>math::max\<close>, \<^verbatim>\<open>math::min\<close> and \<^verbatim>\<open>math::clamp\<close>, written with the one
  comparison each of them uses.\<close>

definition math_max :: "'a::ord \<Rightarrow> 'a \<Rightarrow> 'a" where
  "math_max a b = (if a < b then b else a)"

definition math_min :: "'a::ord \<Rightarrow> 'a \<Rightarrow> 'a" where
  "math_min a b = (if \<not> (b < a) then a else b)"

definition math_clamp :: "'a::ord \<Rightarrow> 'a \<Rightarrow> 'a \<Rightarrow> 'a" where
  "math_clamp v lo hi = (if v < lo then lo else (if hi < v then hi else v))"

section \<open>Vertices and extents (sgl.hpp)\<close>

datatype 'a vertex_xy = Vertex_xy (xy_x: 'a) (xy_y: 'a)

datatype 'a vertex_xyzm = Vertex_xyzm (xyzm_x: 'a) (xyzm_y: 'a) (xyzm_z: 'a) (xyzm_m: 'a)

datatype 'a extent_xy = Extent_xy (xy_min: "'a vertex_xy") (xy_max: "'a vertex_xy")

datatype 'a extent_xyzm = Extent_xyzm (xyzm_min: "'a vertex_xyzm") (xyzm_max: "'a vertex_xyzm")

text \<open>\<^verbatim>\<open>extent_xy::smallest()\<close> and \<^verbatim>\<open>extent_xyzm::smallest()\<close>: min is
  \<^verbatim>\<open>numeric_limits<double>::max()\<close> and max is \<^verbatim>\<open>numeric_limits<double>::lowest()\<close> in every
  ordinate.\<close>

definition extent_xy_smallest :: "double extent_xy" where
  "extent_xy_smallest =
     Extent_xy (Vertex_xy (Fin dbl_max) (Fin dbl_max))
               (Vertex_xy (Fin (- dbl_max)) (Fin (- dbl_max)))"

definition extent_xyzm_smallest :: "double extent_xyzm" where
  "extent_xyzm_smallest =
     Extent_xyzm (Vertex_xyzm (Fin dbl_max) (Fin dbl_max) (Fin dbl_max) (Fin dbl_max))
                 (Vertex_xyzm (Fin (- dbl_max)) (Fin (- dbl_max)) (Fin (- dbl_max)) (Fin (- dbl_max)))"

section \<open>The geometry tree (sgl.hpp, class geometry)\<close>

datatype geometry_type =
    INVALID | POINT | LINESTRING | POLYGON
  | MULTI_POINT | MULTI_LINESTRING | MULTI_POLYGON | GEOMETRY_COLLECTION

text \<open>
  A stored vertex is the contiguous run of ordinates of one vertex: x and y, followed by
  the z and m ordinates the geometry carries (none, one or two of them).
\<close>

datatype 'a vertex = Vertex (vx: 'a) (vy: 'a) (vzm: "'a list")

text \<open>
  A node of the tree. The C++ node keeps one \<^verbatim>\<open>size\<close> and one \<^verbatim>\<open>data\<close> word, read as the
  vertex array of a leaf or as the circular list of the parts of a multi-part node; here
  the two readings are two fields, and the parts are held in the order of the list, from
  the head (\<^verbatim>\<open>tail->next\<close>) to the tail.
\<close>

datatype 'a geometry =
  Geometry (gtype: geometry_type) (has_z: bool) (has_m: bool)
           (vertex_array: "'a vertex list") (parts: "'a geometry list")

definition is_multi_part :: "'a geometry \<Rightarrow> bool" where
  "is_multi_part g = (gtype g \<in> {POLYGON, MULTI_POINT, MULTI_LINESTRING, MULTI_POLYGON,
                                 GEOMETRY_COLLECTION})"

definition get_vertex_count :: "'a geometry \<Rightarrow> nat" where
  "get_vertex_count g = length (vertex_array g)"

definition get_part_count :: "'a geometry \<Rightarrow> nat" where
  "get_part_count g = length (parts g)"

definition is_empty :: "'a geometry \<Rightarrow> bool" where
  "is_empty g = (if is_multi_part g then parts g = [] else vertex_array g = [])"

text \<open>The number of ordinates of a stored vertex, \<^verbatim>\<open>get_vertex_width() / sizeof(double)\<close>.\<close>

definition vertex_ordinates :: "'a geometry \<Rightarrow> nat" where
  "vertex_ordinates g = 2 + (if has_z g then 1 else 0) + (if has_m g then 1 else 0)"

text \<open>Every stored vertex of a leaf has the width its flags announce.\<close>

definition well_formed_leaf :: "'a geometry \<Rightarrow> bool" where
  "well_formed_leaf g = (\<forall>v \<in> set (vertex_array g). 2 + length (vzm v) = vertex_ordinates g)"

text \<open>\<^verbatim>\<open>get_vertex_xy(index)\<close>: the first two ordinates. The index is asserted in range.\<close>

definition get_vertex_xy :: "'a geometry \<Rightarrow> nat \<Rightarrow> 'a vertex_xy option" where
  "get_vertex_xy g i =
     (if i < get_vertex_count g
      then Some (Vertex_xy (vx (vertex_array g ! i)) (vy (vertex_array g ! i)))
      else None)"

text \<open>
  The read \<^verbatim>\<open>vertex_xyzm result = {0, 0, 0, 0}; memcpy(&result, v, vertex_width)\<close>: the
  first \<open>n\<close> ordinates of the run land in x, y, z, m in this order and the rest stay 0.
  With an m and no z, the m ordinate is therefore read into the field z.
\<close>

definition read_xyzm :: "nat \<Rightarrow> 'a::zero vertex \<Rightarrow> 'a vertex_xyzm" where
  "read_xyzm n v =
     (let r = take (n - 2) (vzm v) @ [0, 0]
      in Vertex_xyzm (vx v) (vy v) (r ! 0) (r ! 1))"

definition get_vertex_xyzm :: "'a::zero geometry \<Rightarrow> nat \<Rightarrow> 'a vertex_xyzm option" where
  "get_vertex_xyzm g i =
     (if i < get_vertex_count g
      then Some (read_xyzm (vertex_ordinates g) (vertex_array g ! i))
      else None)"

section \<open>Tree traversals (sgl.cpp)\<close>

text \<open>
  \<^verbatim>\<open>visit_vertex_arrays\<close> walks the tree without recursion, through the sibling and parent
  links, and calls the callback on every POINT and LINESTRING, the rings of polygons
  included. The model returns the visited nodes in the order of the calls.
\<close>

fun visit_vertex_arrays :: "'a geometry \<Rightarrow> 'a geometry list" where
  "visit_vertex_arrays (Geometry t z m vs ps) =
     (case t of
        POINT \<Rightarrow> [Geometry t z m vs ps]
      | LINESTRING \<Rightarrow> [Geometry t z m vs ps]
      | INVALID \<Rightarrow> []
      | _ \<Rightarrow> concat (map visit_vertex_arrays ps))"

section \<open>Extents of a geometry (sgl.cpp, namespace ops)\<close>

text \<open>The body of the vertex loop of \<^verbatim>\<open>get_total_extent_xy\<close>: one vertex is merged into the
  running extent with \<^verbatim>\<open>math::min\<close> and \<^verbatim>\<open>math::max\<close>.\<close>

definition merge_xy :: "'a::ord extent_xy \<Rightarrow> 'a vertex_xy \<Rightarrow> 'a extent_xy" where
  "merge_xy ext v =
     Extent_xy
       (Vertex_xy (math_min (xy_x (xy_min ext)) (xy_x v)) (math_min (xy_y (xy_min ext)) (xy_y v)))
       (Vertex_xy (math_max (xy_x (xy_max ext)) (xy_x v)) (math_max (xy_y (xy_max ext)) (xy_y v)))"

definition merge_xyzm :: "'a::ord extent_xyzm \<Rightarrow> 'a vertex_xyzm \<Rightarrow> 'a extent_xyzm" where
  "merge_xyzm ext v =
     Extent_xyzm
       (Vertex_xyzm (math_min (xyzm_x (xyzm_min ext)) (xyzm_x v))
                    (math_min (xyzm_y (xyzm_min ext)) (xyzm_y v))
                    (math_min (xyzm_z (xyzm_min ext)) (xyzm_z v))
                    (math_min (xyzm_m (xyzm_min ext)) (xyzm_m v)))
       (Vertex_xyzm (math_max (xyzm_x (xyzm_max ext)) (xyzm_x v))
                    (math_max (xyzm_y (xyzm_max ext)) (xyzm_y v))
                    (math_max (xyzm_z (xyzm_max ext)) (xyzm_z v))
                    (math_max (xyzm_m (xyzm_max ext)) (xyzm_m v)))"

text \<open>\<^verbatim>\<open>get_total_extent_xy(geom, ext)\<close> and \<^verbatim>\<open>get_total_extent_xyzm(geom, ext)\<close>: the count
  of the vertices and the extent after all of them have been merged into \<open>ext\<close>.\<close>

definition get_total_extent_xy :: "'a::ord geometry \<Rightarrow> 'a extent_xy \<Rightarrow> nat \<times> 'a extent_xy" where
  "get_total_extent_xy geom ext =
     fold (\<lambda>part (count, e).
             (count + get_vertex_count part,
              fold (\<lambda>v e'. merge_xy e' (Vertex_xy (vx v) (vy v))) (vertex_array part) e))
          (visit_vertex_arrays geom) (0, ext)"

definition get_total_extent_xyzm ::
  "'a::{ord,zero} geometry \<Rightarrow> 'a extent_xyzm \<Rightarrow> nat \<times> 'a extent_xyzm" where
  "get_total_extent_xyzm geom ext =
     fold (\<lambda>part (count, e).
             (count + get_vertex_count part,
              fold (\<lambda>v e'. merge_xyzm e' (read_xyzm (vertex_ordinates part) v))
                   (vertex_array part) e))
          (visit_vertex_arrays geom) (0, ext)"

section \<open>Linestring operations (sgl.cpp, namespace linestring)\<close>

text \<open>\<^verbatim>\<open>linestring::is_closed\<close>: false below two vertices, else the comparison with \<^verbatim>\<open>==\<close> of
  the four fields of the first and the last vertex, as \<^verbatim>\<open>get_vertex_xyzm\<close> reads them.\<close>

definition is_closed :: "double geometry \<Rightarrow> bool" where
  "is_closed geom =
     (if get_vertex_count geom < 2 then False
      else (case (get_vertex_xyzm geom 0, get_vertex_xyzm geom (get_vertex_count geom - 1)) of
              (Some v0, Some vn) \<Rightarrow>
                 deq (xyzm_x v0) (xyzm_x vn) \<and> deq (xyzm_y v0) (xyzm_y vn) \<and>
                 deq (xyzm_z v0) (xyzm_z vn) \<and> deq (xyzm_m v0) (xyzm_m vn)
            | _ \<Rightarrow> False))"

text \<open>
  The ordinates of a stored vertex as the data model names them: x, y, then z when the
  geometry has a z, then m when it has an m; an ordinate the geometry does not carry is
  read as 0.
\<close>

definition ordinates_xyzm :: "'a::zero geometry \<Rightarrow> 'a vertex \<Rightarrow> 'a vertex_xyzm" where
  "ordinates_xyzm g v =
     Vertex_xyzm (vx v) (vy v)
       (if has_z g then vzm v ! 0 else 0)
       (if has_m g then vzm v ! (if has_z g then 1 else 0) else 0)"

text \<open>A two-vertex linestring whose vertices are the same stored vertex, with a NaN x.\<close>

definition nan_line :: "double geometry" where
  "nan_line = Geometry LINESTRING False False [Vertex NaN (Fin 0) [], Vertex NaN (Fin 0) []] []"

section \<open>Rounding to double\<close>

text \<open>
  Round to nearest, ties to even, as IEEE 754 binary64 does it: a real number is first
  rounded to 53 significant bits (to a multiple of \<open>2 ^ - 1074\<close> below the normal range), and
  a result beyond the largest finite double becomes an infinity. \<open>ulp x\<close> is the spacing of
  the doubles around \<open>x\<close>.
\<close>

definition round_half_even :: "real \<Rightarrow> int" where
  "round_half_even x =
     (if x - of_int \<lfloor>x\<rfloor> < 1 / 2 then \<lfloor>x\<rfloor>
      else if x - of_int \<lfloor>x\<rfloor> > 1 / 2 then \<lfloor>x\<rfloor> + 1
      else if even \<lfloor>x\<rfloor> then \<lfloor>x\<rfloor> else \<lfloor>x\<rfloor> + 1)"

definition ulp :: "real \<Rightarrow> real" where
  "ulp x = 2 powr (of_int (max \<lfloor>log 2 \<bar>x\<bar>\<rfloor> (- 1022)) - 52)"

definition round_real :: "real \<Rightarrow> real" where
  "round_real x = of_int (round_half_even (x / ulp x)) * ulp x"

definition rnd :: "real \<Rightarrow> double" where
  "rnd x = (if dbl_max < round_real x then PInf
            else if round_real x < - dbl_max then NInf
            else Fin (round_real x))"

text \<open>
  The rounded operations: the exact result of the operation on doubles, with the IEEE 754
  rules for the special values, rounded once. \<^verbatim>\<open>std::abs\<close> is exact.
\<close>

definition round_double :: "double \<Rightarrow> double" where
  "round_double d = (case d of Fin r \<Rightarrow> rnd r | _ \<Rightarrow> d)"

definition fadd :: "double \<Rightarrow> double \<Rightarrow> double" where
  "fadd a b = round_double (a + b)"

definition fsub :: "double \<Rightarrow> double \<Rightarrow> double" where
  "fsub a b = round_double (a - b)"

definition fmul :: "double \<Rightarrow> double \<Rightarrow> double" where
  "fmul a b = round_double (a * b)"

definition fabs :: "double \<Rightarrow> double" where
  "fabs a = (case a of Fin r \<Rightarrow> Fin \<bar>r\<bar> | PInf \<Rightarrow> PInf | NInf \<Rightarrow> PInf | NaN \<Rightarrow> NaN)"
section \<open>Polygons and areas (sgl.cpp)\<close>

text \<open>The default constructor \<^verbatim>\<open>geometry()\<close>, also the state after \<^verbatim>\<open>reset()\<close>.\<close>

definition geometry_default :: "'a geometry" where
  "geometry_default = Geometry INVALID False False [] []"

text \<open>\<^verbatim>\<open>append_part\<close> links the part after the tail of the circular list and makes it the
  new tail.\<close>

definition append_part :: "'a geometry \<Rightarrow> 'a geometry \<Rightarrow> 'a geometry" where
  "append_part g part =
     Geometry (gtype g) (has_z g) (has_m g) (vertex_array g) (parts g @ [part])"

definition set_type :: "geometry_type \<Rightarrow> 'a geometry \<Rightarrow> 'a geometry" where
  "set_type t g = Geometry t (has_z g) (has_m g) (vertex_array g) (parts g)"

definition set_z :: "bool \<Rightarrow> 'a geometry \<Rightarrow> 'a geometry" where
  "set_z b g = Geometry (gtype g) b (has_m g) (vertex_array g) (parts g)"

definition set_m :: "bool \<Rightarrow> 'a geometry \<Rightarrow> 'a geometry" where
  "set_m b g = Geometry (gtype g) (has_z g) b (vertex_array g) (parts g)"

definition set_vertex_array :: "'a vertex list \<Rightarrow> 'a geometry \<Rightarrow> 'a geometry" where
  "set_vertex_array vs g = Geometry (gtype g) (has_z g) (has_m g) vs (parts g)"

text \<open>
  \<^verbatim>\<open>vertex_array_signed_area\<close>: 0 below three vertices; else, for \<open>i\<close> from 1 to
  \<open>v_count - 2\<close>, the product \<open>(x\<^sub>i - x\<^sub>0) * (y\<^sub>i\<^sub>-\<^sub>1 - y\<^sub>i\<^sub>+\<^sub>1)\<close> is added to the running area, which
  is halved at the end. Every subtraction, multiplication and addition rounds.
\<close>

definition vertex_array_signed_area :: "double geometry \<Rightarrow> double" where
  "vertex_array_signed_area geom =
     (let vs = vertex_array geom; v_count = length vs
      in if v_count < 3 then Fin 0
         else fmul (fold (\<lambda>i area. fadd area (fmul (fsub (vx (vs ! i)) (vx (vs ! 0)))
                                                     (fsub (vy (vs ! (i - 1))) (vy (vs ! (i + 1))))))
                         [1 ..< v_count - 1] (Fin 0))
                   (Fin (1 / 2)))"

text \<open>\<^verbatim>\<open>visit_polygons\<close> calls the callback on every POLYGON reached through MULTI_POLYGON
  and GEOMETRY_COLLECTION nodes; every other node is passed over.\<close>

fun visit_polygons :: "'a geometry \<Rightarrow> 'a geometry list" where
  "visit_polygons (Geometry t z m vs ps) =
     (case t of
        POLYGON \<Rightarrow> [Geometry t z m vs ps]
      | MULTI_POLYGON \<Rightarrow> concat (map visit_polygons ps)
      | GEOMETRY_COLLECTION \<Rightarrow> concat (map visit_polygons ps)
      | _ \<Rightarrow> [])"

text \<open>
  \<^verbatim>\<open>ops::get_area\<close>. The callback adds the absolute signed area of the first ring of the
  polygon to the running area and subtracts that of every further ring from it, in the
  order of the rings.
\<close>

definition get_area_polygon :: "double geometry \<Rightarrow> double \<Rightarrow> double" where
  "get_area_polygon part area =
     (case parts part of
        [] \<Rightarrow> area
      | head # rest \<Rightarrow>
          fold (\<lambda>ring a. fsub a (fabs (vertex_array_signed_area ring))) rest
               (fadd area (fabs (vertex_array_signed_area head))))"

definition get_area :: "double geometry \<Rightarrow> double" where
  "get_area geom = fold get_area_polygon (visit_polygons geom) (Fin 0)"

text \<open>
  The subtractions of \<^verbatim>\<open>get_area\<close> fit: the signed area of every shell is a number, and
  the absolute signed area of every hole is finite and not larger than the running area
  it is subtracted from. \<open>area\<close> is the running area before the first ring.
\<close>

fun holes_fit :: "double \<Rightarrow> double geometry list \<Rightarrow> bool" where
  "holes_fit area [] = True"
| "holes_fit area (ring # rest) =
     (is_finite (fabs (vertex_array_signed_area ring)) \<and>
      fabs (vertex_array_signed_area ring) \<le> area \<and>
      holes_fit (fsub area (fabs (vertex_array_signed_area ring))) rest)"

fun polygons_fit :: "double \<Rightarrow> double geometry list \<Rightarrow> bool" where
  "polygons_fit area [] = True"
| "polygons_fit area (part # rest) =
     ((case parts part of
         [] \<Rightarrow> True
       | head # holes \<Rightarrow>
           vertex_array_signed_area head \<noteq> NaN \<and>
           holes_fit (fadd area (fabs (vertex_array_signed_area head))) holes) \<and>
      polygons_fit (get_area_polygon part area) rest)"

definition subtractions_fit :: "double geometry \<Rightarrow> bool" where
  "subtractions_fit geom = polygons_fit (Fin 0) (visit_polygons geom)"

text \<open>The ring \<^verbatim>\<open>(0 0, 0 s, s s, s 0, 0 0)\<close>.\<close>

definition square_ring :: "real \<Rightarrow> double geometry" where
  "square_ring s =
     Geometry LINESTRING False False
       [Vertex (Fin 0) (Fin 0) [], Vertex (Fin 0) (Fin s) [], Vertex (Fin s) (Fin s) [],
        Vertex (Fin s) (Fin 0) [], Vertex (Fin 0) (Fin 0) []] []"

text \<open>A polygon whose hole is larger than its shell: the shell is the unit square, the hole
  a square of side 2.\<close>

definition hole_larger_than_shell :: "double geometry" where
  "hole_larger_than_shell = Geometry POLYGON False False [] [square_ring 1, square_ring 2]"

text \<open>A polygon of one ring with a NaN ordinate, and a polygon whose shell and hole are the
  same ring \<^verbatim>\<open>(0 0, 1 0, 1 inf)\<close> of infinite area.\<close>

definition nan_shell :: "double geometry" where
  "nan_shell = Geometry POLYGON False False []
     [Geometry LINESTRING False False
        [Vertex NaN (Fin 0) [], Vertex (Fin 0) (Fin 1) [], Vertex (Fin 1) (Fin 1) [],
         Vertex NaN (Fin 0) []] []]"

definition infinite_ring :: "double geometry" where
  "infinite_ring = Geometry LINESTRING False False
     [Vertex (Fin 0) (Fin 0) [], Vertex (Fin 1) (Fin 0) [], Vertex (Fin 1) PInf []] []"

definition infinite_hole :: "double geometry" where
  "infinite_hole = Geometry POLYGON False False [] [infinite_ring, infinite_ring]"

text \<open>A multi-polygon of one polygon: a square of side 2 with a hole of side 1.\<close>

definition donut :: "double geometry" where
  "donut = Geometry MULTI_POLYGON False False []
             [Geometry POLYGON False False [] [square_ring 2, square_ring 1]]"


section \<open>Point in ring (sgl.cpp)\<close>

text \<open>\<^verbatim>\<open>orient2d_fast\<close>: the sign of the determinant, as \<^verbatim>\<open>(det > 0) - (det < 0)\<close>.\<close>

definition orient2d_fast :: "real vertex_xy \<Rightarrow> real vertex_xy \<Rightarrow> real vertex_xy \<Rightarrow> int" where
  "orient2d_fast p q r =
     (let det_l = (xy_x p - xy_x r) * (xy_y q - xy_y r);
          det_r = (xy_y p - xy_y r) * (xy_x q - xy_x r);
          det = det_l - det_r
      in (if det > 0 then 1 else 0) - (if det < 0 then 1 else 0))"

datatype raycast_result = RAY_NONE | RAY_CROSS | RAY_BOUNDARY

definition raycast_fast :: "real vertex_xy \<Rightarrow> real vertex_xy \<Rightarrow> real vertex_xy \<Rightarrow> raycast_result" where
  "raycast_fast prev next vert =
     (if xy_x prev < xy_x vert \<and> xy_x next < xy_x vert then RAY_NONE
      else if xy_x next = xy_x vert \<and> xy_y next = xy_y vert then RAY_BOUNDARY
      else if xy_y prev = xy_y vert \<and> xy_y next = xy_y vert then
        (let minx = (if xy_x prev > xy_x next then xy_x next else xy_x prev);
             maxx = (if xy_x prev > xy_x next then xy_x prev else xy_x next)
         in if xy_x vert \<ge> minx \<and> xy_x vert \<le> maxx then RAY_BOUNDARY else RAY_NONE)
      else if (xy_y prev > xy_y vert \<and> xy_y next \<le> xy_y vert) \<or>
              (xy_y next > xy_y vert \<and> xy_y prev \<le> xy_y vert) then
        (let sign = orient2d_fast prev next vert
         in if sign = 0 then RAY_BOUNDARY
            else if (if xy_y next < xy_y prev then - sign else sign) > 0 then RAY_CROSS
            else RAY_NONE)
      else RAY_NONE)"

datatype point_in_polygon_result = PIP_INVALID | INTERIOR | EXTERIOR | BOUNDARY

text \<open>The first two ordinates of every stored vertex, as the loops read them with
  \<^verbatim>\<open>memcpy(&v, vertex_array + i * vertex_width, sizeof(vertex_xy))\<close>.\<close>

definition vertices_xy :: "'a geometry \<Rightarrow> 'a vertex_xy list" where
  "vertices_xy g = map (\<lambda>v. Vertex_xy (vx v) (vy v)) (vertex_array g)"

text \<open>
  The segment loop of \<^verbatim>\<open>vertex_in_ring\<close>: \<open>prev\<close> is the vertex before the remaining ones,
  \<open>crossings\<close> the count so far. The count is a \<^verbatim>\<open>uint32_t\<close> of which only the parity is
  read, and \<open>2 ^ 32\<close> is even.
\<close>

fun ring_loop :: "real vertex_xy \<Rightarrow> real vertex_xy \<Rightarrow> real vertex_xy list \<Rightarrow> nat
    \<Rightarrow> point_in_polygon_result" where
  "ring_loop vert prev [] crossings = (if crossings mod 2 = 0 then EXTERIOR else INTERIOR)"
| "ring_loop vert prev (next # rest) crossings =
     (case raycast_fast prev next vert of
        RAY_NONE \<Rightarrow> ring_loop vert next rest crossings
      | RAY_CROSS \<Rightarrow> ring_loop vert next rest (crossings + 1)
      | RAY_BOUNDARY \<Rightarrow> BOUNDARY)"

text \<open>
  \<^verbatim>\<open>vertex_in_ring\<close>, for a ring that carries no prepared index: the prepared flag is
  set by \<^verbatim>\<open>prepared_geometry::build\<close> alone, and a plain geometry never has it.
\<close>

definition vertex_in_ring :: "real vertex_xy \<Rightarrow> real geometry \<Rightarrow> point_in_polygon_result" where
  "vertex_in_ring vert ring =
     (if get_vertex_count ring < 3 then PIP_INVALID
      else (case vertices_xy ring of
              [] \<Rightarrow> PIP_INVALID
            | prev # rest \<Rightarrow> ring_loop vert prev rest 0))"










section \<open>The WKB reader (sgl.hpp, sgl.cpp, class wkb\_reader)\<close>

type_synonym byte = "8 word"

datatype wkb_reader_error =
  OK | UNSUPPORTED_TYPE | OUT_OF_BOUNDS | RECURSION_LIMIT | MIXED_ZM | INVALID_CHILD_TYPE

text \<open>
  The state of the reader. \<open>input\<close> is the part of the buffer from \<^verbatim>\<open>pos\<close> to \<^verbatim>\<open>end\<close>.
  \<open>stack_buf\<close> is the member \<^verbatim>\<open>uint32_t stack_buf[16]\<close>.
\<close>

record wkb_reader =
  input :: "byte list"
  copy_vertices :: bool
  allow_mixed_zm :: bool
  nan_as_empty :: bool
  error :: wkb_reader_error
  srid :: "32 word"
  type_id :: "32 word"
  le :: bool
  has_mixed_zm :: bool
  has_any_z :: bool
  has_any_m :: bool
  stack_depth :: nat
  stack_buf :: "32 word list"

definition MAX_STACK_DEPTH :: nat where
  "MAX_STACK_DEPTH = 32"

text \<open>The declared number of elements of \<^verbatim>\<open>stack_buf\<close>.\<close>

definition STACK_BUF_SIZE :: nat where
  "STACK_BUF_SIZE = 16"

text \<open>The reader as its constructor leaves it.\<close>

definition wkb_reader_new :: wkb_reader where
  "wkb_reader_new =
     \<lparr>input = [], copy_vertices = False, allow_mixed_zm = False, nan_as_empty = False,
      error = OK, srid = 0, type_id = 0, le = False, has_mixed_zm = False,
      has_any_z = False, has_any_m = False, stack_depth = 0,
      stack_buf = replicate 16 0\<rparr>"

text \<open>The value of a run of bytes, the first byte the most significant.\<close>

fun be_value :: "byte list \<Rightarrow> nat" where
  "be_value [] = 0"
| "be_value (b # bs) = unat b * 256 ^ length bs + be_value bs"

definition bytes_value :: "bool \<Rightarrow> byte list \<Rightarrow> nat" where
  "bytes_value little bs = be_value (if little then rev bs else bs)"

definition read_u8 :: "wkb_reader \<Rightarrow> byte option \<times> wkb_reader" where
  "read_u8 r =
     (case input r of
        [] \<Rightarrow> (None, r\<lparr>error := OUT_OF_BOUNDS\<rparr>)
      | b # bs \<Rightarrow> (Some b, r\<lparr>input := bs\<rparr>))"

definition read_u32 :: "wkb_reader \<Rightarrow> 32 word option \<times> wkb_reader" where
  "read_u32 r =
     (if length (input r) < 4 then (None, r\<lparr>error := OUT_OF_BOUNDS\<rparr>)
      else (Some (of_nat (bytes_value (le r) (take 4 (input r)))),
            r\<lparr>input := drop 4 (input r)\<rparr>))"

text \<open>A double is read as its 64 bits; the reader never computes on it.\<close>

definition read_f64 :: "wkb_reader \<Rightarrow> 64 word option \<times> wkb_reader" where
  "read_f64 r =
     (if length (input r) < 8 then (None, r\<lparr>error := OUT_OF_BOUNDS\<rparr>)
      else (Some (of_nat (bytes_value (le r) (take 8 (input r)))),
            r\<lparr>input := drop 8 (input r)\<rparr>))"

text \<open>\<^verbatim>\<open>std::isnan\<close> on the bits of a double: all exponent bits set and a non-zero
  fraction.\<close>

definition is_nan_bits :: "64 word \<Rightarrow> bool" where
  "is_nan_bits w = (unat w mod 2 ^ 63 > 2047 * 2 ^ 52)"

text \<open>The stored vertex made of a run of ordinates (at least x and y).\<close>

definition vertex_of_run :: "'a list \<Rightarrow> 'a vertex" where
  "vertex_of_run cs = Vertex (cs ! 0) (cs ! 1) (drop 2 cs)"

text \<open>The loop of \<^verbatim>\<open>read_point\<close> over the ordinates: it stops at the first failed read.\<close>

fun read_ordinates :: "nat \<Rightarrow> wkb_reader \<Rightarrow> 64 word list option \<times> wkb_reader" where
  "read_ordinates 0 r = (Some [], r)"
| "read_ordinates (Suc n) r =
     (case read_f64 r of
        (None, r') \<Rightarrow> (None, r')
      | (Some c, r') \<Rightarrow>
          (case read_ordinates n r' of
             (None, r'') \<Rightarrow> (None, r'')
           | (Some cs, r'') \<Rightarrow> (Some (c # cs), r'')))"

definition read_point :: "wkb_reader \<Rightarrow> 64 word geometry \<Rightarrow> 64 word geometry option \<times> wkb_reader" where
  "read_point r geom =
     (case read_ordinates (vertex_ordinates geom) r of
        (None, r') \<Rightarrow> (None, r')
      | (Some coords, r') \<Rightarrow>
          if nan_as_empty r \<and> list_all is_nan_bits coords
          then (Some (set_vertex_array [] geom), r')
          else (Some (set_vertex_array [vertex_of_run coords] geom), r'))"

text \<open>The vertices of a linestring: \<open>count\<close> runs of \<open>n\<close> doubles each, taken in place when
  the payload is little-endian and byte-swapped double by double otherwise.\<close>

fun decode_vertices :: "bool \<Rightarrow> nat \<Rightarrow> nat \<Rightarrow> byte list \<Rightarrow> 64 word vertex list" where
  "decode_vertices little n 0 bs = []"
| "decode_vertices little n (Suc k) bs =
     vertex_of_run (map (\<lambda>j. of_nat (bytes_value little (take 8 (drop (8 * j) bs)))) [0 ..< n])
       # decode_vertices little n k (drop (8 * n) bs)"

definition read_line :: "wkb_reader \<Rightarrow> 64 word geometry \<Rightarrow> 64 word geometry option \<times> wkb_reader" where
  "read_line r geom =
     (case read_u32 r of
        (None, r') \<Rightarrow> (None, r')
      | (Some vertex_count, r') \<Rightarrow>
          (let byte_size = unat vertex_count * (8 * vertex_ordinates geom)
           in if byte_size > length (input r') then (None, r'\<lparr>error := OUT_OF_BOUNDS\<rparr>)
              else (Some (set_vertex_array
                            (decode_vertices (le r') (vertex_ordinates geom) (unat vertex_count)
                               (input r'))
                            geom),
                    r'\<lparr>input := drop byte_size (input r')\<rparr>)))"

text \<open>The loop over the rings of a POLYGON: each ring is a new LINESTRING with the flags
  of the polygon, read by \<^verbatim>\<open>read_line\<close> and appended.\<close>

fun read_rings :: "nat \<Rightarrow> wkb_reader \<Rightarrow> 64 word geometry \<Rightarrow> 64 word geometry option \<times> wkb_reader" where
  "read_rings 0 r geom = (Some geom, r)"
| "read_rings (Suc n) r geom =
     (case read_line r (Geometry LINESTRING (has_z geom) (has_m geom) [] []) of
        (None, r') \<Rightarrow> (None, r')
      | (Some ring, r') \<Rightarrow> read_rings n r' (append_part geom ring))"

text \<open>
  How a run of \<^verbatim>\<open>try_parse\<close> ends: with the tree and \<^verbatim>\<open>true\<close>; with \<^verbatim>\<open>false\<close> and the error
  of the reader; with a write to \<^verbatim>\<open>stack_buf\<close> at an index outside its sixteen elements,
  after which the behaviour of the C++ program is undefined; or with a failed assertion.
\<close>

datatype wkb_outcome =
    Parsed "64 word geometry"
  | Failed
  | Stack_buf_overrun nat
  | Assertion_failed

datatype wkb_step =
    Continue wkb_reader "64 word geometry" "64 word geometry list"
  | Stop wkb_outcome wkb_reader

text \<open>The type tag: the enumerator of \<^verbatim>\<open>static_cast<geometry_type>((type_id & 0xffff) % 1000)\<close>,
  an eight-bit value, when it names one.\<close>

definition decode_type :: "32 word \<Rightarrow> geometry_type option" where
  "decode_type tid =
     (let code = ((unat tid mod 65536) mod 1000) mod 256
      in if code = 0 then Some INVALID
         else if code = 1 then Some POINT
         else if code = 2 then Some LINESTRING
         else if code = 3 then Some POLYGON
         else if code = 4 then Some MULTI_POINT
         else if code = 5 then Some MULTI_LINESTRING
         else if code = 6 then Some MULTI_POLYGON
         else if code = 7 then Some GEOMETRY_COLLECTION
         else None)"

definition decode_has_z :: "32 word \<Rightarrow> bool" where
  "decode_has_z tid =
     (let flags = (unat tid mod 65536) div 1000
      in flags = 1 \<or> flags = 3 \<or> (unat tid div 2 ^ 31) mod 2 = 1)"

definition decode_has_m :: "32 word \<Rightarrow> bool" where
  "decode_has_m tid =
     (let flags = (unat tid mod 65536) div 1000
      in flags = 2 \<or> flags = 3 \<or> (unat tid div 2 ^ 30) mod 2 = 1)"

definition decode_has_srid :: "32 word \<Rightarrow> bool" where
  "decode_has_srid tid = ((unat tid div 2 ^ 29) mod 2 = 1)"

text \<open>
  The inner loop of \<^verbatim>\<open>try_parse\<close>, entered when a geometry is complete. \<open>geom\<close> is the
  complete geometry and \<open>frames\<close> its ancestors, the parent first, each holding the parts
  completed before. \<open>z\<close> and \<open>m\<close> are the flags of the geometry read last. The loop ends
  the parse at depth 0, opens the next sibling when the count on top of the stack is
  not used up, and climbs to the parent otherwise.
\<close>

fun ascend :: "wkb_reader \<Rightarrow> bool \<Rightarrow> bool \<Rightarrow> 64 word geometry \<Rightarrow> 64 word geometry list
    \<Rightarrow> wkb_step" where
  "ascend r z m geom [] =
     (if stack_depth r = 0 then Stop (Parsed geom) r else Stop Assertion_failed r)"
| "ascend r z m geom (parent # up) =
     (if stack_depth r = 0 then Stop Assertion_failed r
      else if gtype parent = MULTI_POINT \<and> gtype geom \<noteq> POINT
        then Stop Failed (r\<lparr>error := INVALID_CHILD_TYPE\<rparr>)
      else if gtype parent = MULTI_LINESTRING \<and> gtype geom \<noteq> LINESTRING
        then Stop Failed (r\<lparr>error := INVALID_CHILD_TYPE\<rparr>)
      else if gtype parent = MULTI_POLYGON \<and> gtype geom \<noteq> POLYGON
        then Stop Failed (r\<lparr>error := INVALID_CHILD_TYPE\<rparr>)
      else if STACK_BUF_SIZE \<le> stack_depth r - 1 then Stop (Stack_buf_overrun (stack_depth r - 1)) r
      else
        (let top = stack_depth r - 1;
             left = stack_buf r ! top - 1;
             r' = r\<lparr>stack_buf := (stack_buf r)[top := left]\<rparr>
         in if left > 0
            then Continue r' (Geometry INVALID z m [] []) (append_part parent geom # up)
            else ascend (r'\<lparr>stack_depth := top\<rparr>) z m (append_part parent geom) up))"

text \<open>
  The head of one pass of the outer loop of \<^verbatim>\<open>try_parse\<close>: the byte order, the type tag
  and, when the tag announces it, the SRID.
\<close>

definition parse_header :: "wkb_reader \<Rightarrow> 32 word option \<times> wkb_reader" where
  "parse_header r0 =
     (case read_u8 r0 of
        (None, r) \<Rightarrow> (None, r)
      | (Some order, r1) \<Rightarrow>
          (case read_u32 (r1\<lparr>le := (order \<noteq> 0)\<rparr>) of
             (None, r) \<Rightarrow> (None, r)
           | (Some tid, r2) \<Rightarrow>
               if decode_has_srid tid
               then (case read_u32 (r2\<lparr>type_id := tid\<rparr>) of
                       (None, r) \<Rightarrow> (None, r)
                     | (Some s, r) \<Rightarrow> (Some tid, r\<lparr>srid := s\<rparr>))
               else (Some tid, r2\<lparr>type_id := tid\<rparr>)))"

text \<open>The comparison of the flags just read with those of the root \<^verbatim>\<open>out\<close>. The result is
  true when the parse fails with MIXED\_ZM.\<close>

definition compare_with_root :: "wkb_reader \<Rightarrow> 64 word geometry \<Rightarrow> bool \<Rightarrow> bool
    \<Rightarrow> bool \<times> wkb_reader" where
  "compare_with_root r out z m =
     (if \<not> has_mixed_zm r \<and> (has_m out \<noteq> m \<or> has_z out \<noteq> z)
      then (let r' = r\<lparr>has_any_z := (has_any_z r \<or> z), has_any_m := (has_any_m r \<or> m),
                        has_mixed_zm := True\<rparr>
            in if \<not> allow_mixed_zm r' then (True, r'\<lparr>error := MIXED_ZM\<rparr>) else (False, r'))
      else (False, r))"

text \<open>
  The \<^verbatim>\<open>switch\<close> on the type of the geometry, and the inner loop after it. A multi-part
  geometry with parts writes its count to \<^verbatim>\<open>stack_buf[stack_depth++]\<close> and descends into
  a new child; the only check before the write is \<^verbatim>\<open>stack_depth >= MAX_STACK_DEPTH\<close>.
\<close>

definition parse_payload :: "wkb_reader \<Rightarrow> geometry_type \<Rightarrow> bool \<Rightarrow> bool \<Rightarrow> 64 word geometry
    \<Rightarrow> 64 word geometry list \<Rightarrow> wkb_step" where
  "parse_payload r t z m geom frames =
     (if t = POINT then
        (case read_point r geom of
           (None, r') \<Rightarrow> Stop Failed r'
         | (Some g, r') \<Rightarrow> ascend r' z m g frames)
      else if t = LINESTRING then
        (case read_line r geom of
           (None, r') \<Rightarrow> Stop Failed r'
         | (Some g, r') \<Rightarrow> ascend r' z m g frames)
      else if t = POLYGON then
        (case read_u32 r of
           (None, r') \<Rightarrow> Stop Failed r'
         | (Some ring_count, r') \<Rightarrow>
             (case read_rings (unat ring_count) r' geom of
                (None, r'') \<Rightarrow> Stop Failed r''
              | (Some g, r'') \<Rightarrow> ascend r'' z m g frames))
      else if t = INVALID then Stop Failed (r\<lparr>error := UNSUPPORTED_TYPE\<rparr>)
      else if stack_depth r \<ge> MAX_STACK_DEPTH then Stop Failed (r\<lparr>error := RECURSION_LIMIT\<rparr>)
      else
        (case read_u32 r of
           (None, r') \<Rightarrow> Stop Failed r'
         | (Some count, r') \<Rightarrow>
             if count = 0 then ascend r' z m geom frames
             else if STACK_BUF_SIZE \<le> stack_depth r'
               then Stop (Stack_buf_overrun (stack_depth r')) r'
             else Continue (r'\<lparr>stack_buf := (stack_buf r')[stack_depth r' := count],
                               stack_depth := stack_depth r' + 1\<rparr>)
                           (Geometry INVALID z m [] []) (geom # frames)))"

text \<open>One pass of the outer loop of \<^verbatim>\<open>try_parse\<close>, on the current geometry \<open>geom0\<close> and its
  ancestors.\<close>

definition parse_step :: "wkb_reader \<Rightarrow> 64 word geometry \<Rightarrow> 64 word geometry list \<Rightarrow> wkb_step" where
  "parse_step r0 geom0 frames =
     (case parse_header r0 of
        (None, r) \<Rightarrow> Stop Failed r
      | (Some tid, r) \<Rightarrow>
          (let z = decode_has_z tid;
               m = decode_has_m tid;
               flagged = set_m m (set_z z geom0)
           in (case compare_with_root r (last (flagged # frames)) z m of
                 (True, r') \<Rightarrow> Stop Failed r'
               | (False, r') \<Rightarrow>
                   (case decode_type tid of
                      None \<Rightarrow> Stop Failed (r'\<lparr>error := UNSUPPORTED_TYPE\<rparr>)
                    | Some t \<Rightarrow> parse_payload r' t z m (set_type t flagged) frames))))"

text \<open>
  The outer loop of \<^verbatim>\<open>try_parse\<close> runs \<open>parse_step\<close> until the parse stops. Every pass
  that continues has consumed input, which is why the loop ends.
\<close>

lemma read_u8_input:
  "read_u8 r = (Some b, r') \<Longrightarrow> length (input r') < length (input r)"
  by (auto simp: read_u8_def split: list.splits)

lemma read_u32_input:
  "read_u32 r = (Some v, r') \<Longrightarrow> length (input r') < length (input r)"
  by (auto simp: read_u32_def split: if_splits)

lemma read_f64_input:
  "read_f64 r = (Some v, r') \<Longrightarrow> length (input r') < length (input r)"
  by (auto simp: read_f64_def split: if_splits)

lemma read_ordinates_input:
  "read_ordinates n r = (Some cs, r') \<Longrightarrow> length (input r') \<le> length (input r)"
proof (induction n arbitrary: r cs r')
  case 0
  then show ?case by simp
next
  case (Suc n)
  then show ?case
    by (auto split: prod.splits option.splits dest!: read_f64_input) fastforce
qed

lemma read_point_input:
  "read_point r g = (Some g', r') \<Longrightarrow> length (input r') \<le> length (input r)"
  by (auto simp: read_point_def split: prod.splits option.splits if_splits
           dest: read_ordinates_input)

lemma read_line_input:
  "read_line r g = (Some g', r') \<Longrightarrow> length (input r') \<le> length (input r)"
  by (auto simp: read_line_def Let_def split: prod.splits option.splits if_splits
           dest!: read_u32_input)

lemma read_rings_input:
  "read_rings n r g = (Some g', r') \<Longrightarrow> length (input r') \<le> length (input r)"
proof (induction n arbitrary: r g)
  case 0
  then show ?case by simp
next
  case (Suc n)
  then show ?case
    by (auto split: prod.splits option.splits dest!: read_line_input) fastforce
qed

lemma ascend_input:
  "ascend r z m g fs = Continue r' g' fs' \<Longrightarrow> input r' = input r"
proof (induction fs arbitrary: r g)
  case Nil
  then show ?case by (simp split: if_splits)
next
  case (Cons parent up)
  then show ?case
    by (auto simp: Let_def split: if_splits)
qed

lemma parse_header_input:
  "parse_header r = (Some tid, r') \<Longrightarrow> length (input r') < length (input r)"
  by (auto simp: parse_header_def split: prod.splits option.splits if_splits
           dest!: read_u8_input read_u32_input)

lemma compare_with_root_input:
  "compare_with_root r out z m = (b, r') \<Longrightarrow> input r' = input r"
  by (auto simp: compare_with_root_def Let_def split: if_splits)

lemma parse_payload_input:
  assumes "parse_payload r t z m geom fs = Continue r' g' fs'"
  shows "length (input r') \<le> length (input r)"
proof -
  have via_ascend: "length (input r') \<le> length (input r)"
    if "ascend ra z m ga fs = Continue r' g' fs'" and "length (input ra) \<le> length (input r)"
    for ra ga
    using ascend_input [OF that(1)] that(2) by simp
  consider (point) "t = POINT" | (line) "t = LINESTRING" | (polygon) "t = POLYGON"
    | (invalid) "t = INVALID"
    | (multi) "t \<noteq> POINT" "t \<noteq> LINESTRING" "t \<noteq> POLYGON" "t \<noteq> INVALID"
    by blast
  then show ?thesis
  proof cases
    case point
    then obtain ga ra where "read_point r geom = (Some ga, ra)"
      and "ascend ra z m ga fs = Continue r' g' fs'"
      using assms unfolding parse_payload_def by (auto split: prod.splits option.splits)
    then show ?thesis using via_ascend read_point_input by blast
  next
    case line
    then obtain ga ra where "read_line r geom = (Some ga, ra)"
      and "ascend ra z m ga fs = Continue r' g' fs'"
      using assms unfolding parse_payload_def by (auto split: prod.splits option.splits)
    then show ?thesis using via_ascend read_line_input by blast
  next
    case polygon
    then obtain n r6 ga ra where "read_u32 r = (Some n, r6)"
      and "read_rings (unat n) r6 geom = (Some ga, ra)"
      and "ascend ra z m ga fs = Continue r' g' fs'"
      using assms unfolding parse_payload_def by (auto split: prod.splits option.splits)
    then show ?thesis
      using via_ascend [of ra ga] read_rings_input [of "unat n" r6 geom ga ra]
            read_u32_input [of r n r6] by simp
  next
    case invalid
    then show ?thesis using assms unfolding parse_payload_def by simp
  next
    case multi
    then obtain n r6 where u: "read_u32 r = (Some n, r6)"
      using assms unfolding parse_payload_def
      by (auto split: prod.splits option.splits if_splits)
    have l6: "length (input r6) < length (input r)" using read_u32_input [OF u] .
    show ?thesis
    proof (cases "n = 0")
      case True
      then have "ascend r6 z m geom fs = Continue r' g' fs'"
        using assms multi u unfolding parse_payload_def by (simp split: if_splits)
      then show ?thesis using via_ascend [of r6 geom] l6 by simp
    next
      case False
      then have "r' = r6\<lparr>stack_buf := (stack_buf r6)[stack_depth r6 := n],
                                  stack_depth := stack_depth r6 + 1\<rparr>"
        using assms multi u unfolding parse_payload_def by (simp split: if_splits)
      then show ?thesis using l6 by simp
    qed
  qed
qed

lemma parse_step_input:
  assumes "parse_step r g fs = Continue r' g' fs'"
  shows "length (input r') < length (input r)"
proof -
  obtain tid r1 where h: "parse_header r = (Some tid, r1)"
    using assms by (auto simp: parse_step_def split: prod.splits option.splits)
  define z where "z = decode_has_z tid"
  define m where "m = decode_has_m tid"
  obtain r2 where c: "compare_with_root r1 (last (set_m m (set_z z g) # fs)) z m = (False, r2)"
    using assms h
    by (auto simp: parse_step_def Let_def z_def m_def split: prod.splits option.splits bool.splits)
  obtain t where t: "decode_type tid = Some t"
    and p: "parse_payload r2 t z m (set_type t (set_m m (set_z z g))) fs = Continue r' g' fs'"
    using assms h c
    by (auto simp: parse_step_def Let_def z_def m_def split: prod.splits option.splits)
  show ?thesis
    using parse_header_input [OF h] compare_with_root_input [OF c] parse_payload_input [OF p]
    by simp
qed

text \<open>The outer loop.\<close>

function parse_loop :: "wkb_reader \<Rightarrow> 64 word geometry \<Rightarrow> 64 word geometry list
    \<Rightarrow> wkb_outcome \<times> wkb_reader" where
  "parse_loop r geom frames =
     (case parse_step r geom frames of
        Stop outcome r' \<Rightarrow> (outcome, r')
      | Continue r' geom' frames' \<Rightarrow> parse_loop r' geom' frames')"
  by pat_completeness auto
termination
  by (relation "measure (\<lambda>(r, geom, frames). length (input r))")
     (auto dest: parse_step_input)

text \<open>\<^verbatim>\<open>wkb_reader::try_parse(out, buf, end)\<close>. The members \<^verbatim>\<open>has_mixed_zm\<close> and \<^verbatim>\<open>stack_buf\<close>
  are not set anew, and \<open>out\<close> is not reset.\<close>

definition try_parse :: "wkb_reader \<Rightarrow> 64 word geometry \<Rightarrow> byte list
    \<Rightarrow> wkb_outcome \<times> wkb_reader" where
  "try_parse r out buf =
     parse_loop (r\<lparr>input := buf, error := OK, stack_depth := 0, le := False, type_id := 0,
                  has_any_m := False, has_any_z := False\<rparr>) out []"

text \<open>
  The WKB of a point at the origin inside \<open>n\<close> nested GEOMETRYCOLLECTIONs of one part each,
  little-endian: byte order 1, type 7, count 1 for every collection, then byte order 1,
  type 1 and two doubles.
\<close>

definition collection_header :: "byte list" where
  "collection_header = [1, 7, 0, 0, 0, 1, 0, 0, 0]"

definition point_wkb :: "byte list" where
  "point_wkb = [1, 1, 0, 0, 0] @ replicate 16 0"

definition nested_collections :: "nat \<Rightarrow> byte list" where
  "nested_collections n = concat (replicate n collection_header) @ point_wkb"



text \<open>A geometry without z and m.\<close>

definition flat :: "64 word geometry \<Rightarrow> bool" where
  "flat g = (\<not> has_z g \<and> \<not> has_m g)"

section \<open>Lengths and substrings (sgl.cpp)\<close>

text \<open>\<^verbatim>\<open>a >= b\<close> on doubles.\<close>

definition dge :: "double \<Rightarrow> double \<Rightarrow> bool" where
  "dge a b = (dless b a \<or> deq a b)"

text \<open>The segment loop of \<^verbatim>\<open>vertex_array_length\<close>: \<open>len\<close> is the length so far, \<open>prev\<close> the
  vertex before the remaining ones.\<close>

fun length_loop :: "double \<Rightarrow> double vertex_xy \<Rightarrow> double vertex_xy list \<Rightarrow> double" where
  "length_loop len prev [] = len"
| "length_loop len prev (next # rest) =
     (let dx = xy_x next - xy_x prev;
          dy = xy_y next - xy_y prev
      in length_loop (len + dsqrt (dx * dx + dy * dy)) next rest)"

definition vertex_array_length :: "double geometry \<Rightarrow> double" where
  "vertex_array_length geom =
     (if get_vertex_count geom < 2 then 0
      else (case vertices_xy geom of
              [] \<Rightarrow> 0
            | prev # rest \<Rightarrow> length_loop 0 prev rest))"

text \<open>\<^verbatim>\<open>visit_lines\<close> calls the callback on every LINESTRING reached through
  MULTI_LINESTRING and GEOMETRY_COLLECTION nodes.\<close>

fun visit_lines :: "'a geometry \<Rightarrow> 'a geometry list" where
  "visit_lines (Geometry t z m vs ps) =
     (case t of
        LINESTRING \<Rightarrow> [Geometry t z m vs ps]
      | MULTI_LINESTRING \<Rightarrow> concat (map visit_lines ps)
      | GEOMETRY_COLLECTION \<Rightarrow> concat (map visit_lines ps)
      | _ \<Rightarrow> [])"

definition get_length :: "double geometry \<Rightarrow> double" where
  "get_length geom = fold (\<lambda>part len. len + vertex_array_length part) (visit_lines geom) 0"

text \<open>The write \<^verbatim>\<open>memcpy(mem, &point, vertex_width)\<close>: the first \<open>n\<close> of the fields x, y, z, m
  become a stored vertex.\<close>

definition write_xyzm :: "nat \<Rightarrow> 'a vertex_xyzm \<Rightarrow> 'a vertex" where
  "write_xyzm n p = Vertex (xyzm_x p) (xyzm_y p) (take (n - 2) [xyzm_z p, xyzm_m p])"

text \<open>The point at the fraction \<open>sfrac\<close> of the segment from \<open>prev\<close> to \<open>next\<close>, in all four
  fields.\<close>

definition along :: "double vertex_xyzm \<Rightarrow> double vertex_xyzm \<Rightarrow> double \<Rightarrow> double vertex_xyzm" where
  "along prev next sfrac =
     Vertex_xyzm (xyzm_x prev + sfrac * (xyzm_x next - xyzm_x prev))
                 (xyzm_y prev + sfrac * (xyzm_y next - xyzm_y prev))
                 (xyzm_z prev + sfrac * (xyzm_z next - xyzm_z prev))
                 (xyzm_m prev + sfrac * (xyzm_m next - xyzm_m prev))"

text \<open>
  The state of the two search loops of \<^verbatim>\<open>substring\<close>, which the second loop takes over
  from the first: the length walked, the vertex \<open>prev\<close>, the index \<^verbatim>\<open>vertex_idx\<close> and the
  vertices from that index on.
\<close>

record walk =
  walked :: double
  at_vertex :: "double vertex_xyzm"
  vertex_idx :: nat
  ahead :: "double vertex_xyzm list"

text \<open>
  One search loop: it walks the segments until the length reaches \<open>target\<close> and then
  returns the point at \<^verbatim>\<open>remaining / segment_length\<close> of that segment with the index of
  the start of the segment, leaving the state on that segment. The division is not
  guarded. When the vertices run out nothing is found.
\<close>

fun seek :: "double \<Rightarrow> walk \<Rightarrow> double vertex_xyzm list
    \<Rightarrow> (double vertex_xyzm \<times> nat) option \<times> walk" where
  "seek target w [] = (None, w\<lparr>ahead := []\<rparr>)"
| "seek target w (next # rest) =
     (let prev = at_vertex w;
          dx = xyzm_x next - xyzm_x prev;
          dy = xyzm_y next - xyzm_y prev;
          segment_length = dsqrt (dx * dx + dy * dy)
      in if dge (walked w + segment_length) target
         then (let remaining = target - walked w;
                   sfrac = remaining / segment_length
               in (Some (along prev next sfrac, vertex_idx w - 1), w\<lparr>ahead := next # rest\<rparr>))
         else seek target
                (w\<lparr>walked := walked w + segment_length, at_vertex := next,
                   vertex_idx := vertex_idx w + 1\<rparr>)
                rest)"

text \<open>\<^verbatim>\<open>linestring::interpolate\<close>: the point at the fraction \<open>frac\<close> of the length, when there
  is one.\<close>

definition interpolate :: "double geometry \<Rightarrow> double \<Rightarrow> double vertex_xyzm option" where
  "interpolate geom frac0 =
     (if gtype geom \<noteq> LINESTRING then None
      else if is_empty geom then None
      else
        (let n = vertex_ordinates geom;
             vs = map (read_xyzm n) (vertex_array geom)
         in if get_vertex_count geom = 1 then Some (hd vs)
            else
              (let frac = math_min (math_max frac0 0) 1
               in if deq frac 0 then Some (hd vs)
                  else if deq frac 1 then Some (last vs)
                  else
                    (let target_length = get_length geom * frac
                     in (case seek target_length
                                \<lparr>walked = 0, at_vertex = hd vs, vertex_idx = 1, ahead = tl vs\<rparr>
                                (tl vs) of
                           (Some (p, i), w) \<Rightarrow> Some p
                         | (None, w) \<Rightarrow> None)))))"

text \<open>
  \<^verbatim>\<open>linestring::substring\<close>. \<open>result\<close> is the geometry handed in as the out-parameter. The
  value is \<open>None\<close> when \<^verbatim>\<open>end_idx - beg_idx + 2\<close>, computed on \<^verbatim>\<open>size_t\<close>, wraps around,
  which asks the allocator for about \<open>2 ^ 64\<close> vertices.
\<close>

definition substring :: "double geometry \<Rightarrow> double \<Rightarrow> double \<Rightarrow> double geometry
    \<Rightarrow> double geometry option" where
  "substring geom beg_frac0 end_frac0 result0 =
     (let result = set_m (has_m geom) (set_z (has_z geom) (set_type LINESTRING result0))
      in if gtype geom \<noteq> LINESTRING then Some result
         else if is_empty geom
           then Some (if deq beg_frac0 end_frac0 then set_type POINT result else result)
         else if dless end_frac0 beg_frac0 then Some result
         else
           (let beg_frac = math_min (math_max beg_frac0 0) 1;
                end_frac = math_min (math_max end_frac0 0) 1;
                n = vertex_ordinates geom
            in if deq beg_frac 0 \<and> deq end_frac 1
                 then Some (set_vertex_array (vertex_array geom) result)
               else if deq beg_frac end_frac
                 then (case interpolate geom beg_frac of
                         Some point \<Rightarrow>
                           Some (set_vertex_array [write_xyzm n point] (set_type POINT result))
                       | None \<Rightarrow> Some (set_type POINT result))
               else
                 (let total_length = get_length geom;
                      beg_length = total_length * beg_frac;
                      end_length = total_length * end_frac;
                      vs = map (read_xyzm n) (vertex_array geom);
                      zero = Vertex_xyzm 0 0 0 0;
                      (found_beg, w) =
                         seek beg_length
                           \<lparr>walked = 0, at_vertex = hd vs, vertex_idx = 1, ahead = tl vs\<rparr> (tl vs);
                      (beg, beg_idx) = (case found_beg of Some f \<Rightarrow> f | None \<Rightarrow> (zero, 0));
                      (found_end, w') = seek end_length w (ahead w);
                      (end, end_idx) = (case found_end of Some f \<Rightarrow> f | None \<Rightarrow> (zero, 0))
                  in if end_idx < beg_idx then None
                     else Some (set_vertex_array
                                  ([write_xyzm n beg]
                                   @ take (end_idx - beg_idx) (drop (beg_idx + 1) (vertex_array geom))
                                   @ [write_xyzm n end])
                                  result))))"

text \<open>A linestring that starts with a repeated vertex: \<^verbatim>\<open>LINESTRING(0 0, 0 0, 1 0)\<close>.\<close>

definition repeated_start :: "double geometry" where
  "repeated_start =
     Geometry LINESTRING False False
       [Vertex (Fin 0) (Fin 0) [], Vertex (Fin 0) (Fin 0) [], Vertex (Fin 1) (Fin 0) []] []"

section \<open>The WKT reader (sgl.cpp, class wkt\_reader)\<close>

text \<open>
  The reader works on the characters from \<^verbatim>\<open>pos\<close> to \<^verbatim>\<open>end\<close>; a matcher returns the
  characters left after what it consumed. \<^verbatim>\<open>std::isspace\<close>, \<^verbatim>\<open>std::isdigit\<close> and
  \<^verbatim>\<open>std::tolower\<close> are those of the C locale.
\<close>

definition isspace :: "char \<Rightarrow> bool" where
  "isspace c = (c = CHR '' '' \<or> (9 \<le> (of_char c :: nat) \<and> (of_char c :: nat) \<le> 13))"

definition isdigit :: "char \<Rightarrow> bool" where
  "isdigit c = (48 \<le> (of_char c :: nat) \<and> (of_char c :: nat) \<le> 57)"

definition tolower :: "char \<Rightarrow> char" where
  "tolower c = (if 65 \<le> (of_char c :: nat) \<and> (of_char c :: nat) \<le> 90
                then char_of ((of_char c :: nat) + 32) else c)"

definition match_ws :: "string \<Rightarrow> string" where
  "match_ws s = dropWhile isspace s"

text \<open>The loop of \<^verbatim>\<open>match_str\<close>: the keyword is matched without regard to case.\<close>

fun match_prefix :: "string \<Rightarrow> string \<Rightarrow> string option" where
  "match_prefix [] s = Some s"
| "match_prefix (k # ks) [] = None"
| "match_prefix (k # ks) (c # cs) =
     (if tolower k = tolower c then match_prefix ks cs else None)"

definition match_str :: "string \<Rightarrow> string \<Rightarrow> string option" where
  "match_str kw s = map_option match_ws (match_prefix kw s)"

definition match_char :: "char \<Rightarrow> string \<Rightarrow> string option" where
  "match_char c s =
     (case s of
        [] \<Rightarrow> None
      | d # rest \<Rightarrow> if tolower d = tolower c then Some (match_ws rest) else None)"

text \<open>The scan of \<^verbatim>\<open>match_number\<close> before the conversion: a sign, digits, a point with
  digits, an exponent with a sign and digits, each optional. It returns what is left.\<close>

definition scan_number :: "string \<Rightarrow> string" where
  "scan_number s0 =
     (let s1 = (case s0 of c # r \<Rightarrow> if c = CHR ''+'' \<or> c = CHR ''-'' then r else s0 | [] \<Rightarrow> s0);
          s2 = dropWhile isdigit s1;
          s3 = (case s2 of c # r \<Rightarrow> if c = CHR ''.'' then dropWhile isdigit r else s2 | [] \<Rightarrow> s2)
      in (case s3 of
            c # r \<Rightarrow>
              if c = CHR ''e'' \<or> c = CHR ''E'' then
                (let r1 = (case r of d # r' \<Rightarrow> if d = CHR ''+'' \<or> d = CHR ''-'' then r' else r
                                    | [] \<Rightarrow> r)
                 in dropWhile isdigit r1)
              else s3
          | [] \<Rightarrow> s3))"

text \<open>
  \<^verbatim>\<open>match_number\<close>. The conversion is \<^verbatim>\<open>std::strtod\<close> of the C library, a parameter of the
  model: it gives the value and the number of characters it converted, 0 when it
  converted nothing.
\<close>

definition match_number :: "(string \<Rightarrow> 'a \<times> nat) \<Rightarrow> string \<Rightarrow> ('a \<times> string) option" where
  "match_number strtod s =
     (if length (scan_number s) = length s then None
      else (case strtod s of
              (val, n) \<Rightarrow> if n = 0 then None else Some (val, match_ws (drop n s))))"

text \<open>The loop \<^verbatim>\<open>for (i = 0; i < vertex_stride; i++) expect_number(vert[i])\<close>.\<close>

fun parse_ordinates :: "(string \<Rightarrow> 'a \<times> nat) \<Rightarrow> nat \<Rightarrow> string \<Rightarrow> string + ('a list \<times> string)" where
  "parse_ordinates strtod 0 s = Inr ([], s)"
| "parse_ordinates strtod (Suc n) s =
     (case match_number strtod s of
        None \<Rightarrow> Inl ''Expected number''
      | Some (v, s') \<Rightarrow>
          (case parse_ordinates strtod n s' of
             Inl e \<Rightarrow> Inl e
           | Inr (vs, s'') \<Rightarrow> Inr (v # vs, s'')))"

text \<open>\<^verbatim>\<open>expect_char(C)\<close>: the rest of the parse runs on what is left after the character,
  and the parse fails without it.\<close>

definition expect_char :: "char \<Rightarrow> string \<Rightarrow> string + string" where
  "expect_char c s =
     (case match_char c s of
        None \<Rightarrow> Inl (''Expected character: '' @ [CHR 0x27, CHR 0x27, c, CHR 0x27, CHR 0x27])
      | Some s' \<Rightarrow> Inr s')"

text \<open>No matcher gives back more characters than it was given; those that succeed on a
  character or a keyword give back fewer. The loops of the parser end for this reason.\<close>

lemma match_ws_len: "length (match_ws s) \<le> length s"
  by (simp add: match_ws_def length_dropWhile_le)

lemma match_prefix_len: "match_prefix kw s = Some s' \<Longrightarrow> length s' + length kw = length s"
  by (induction kw s rule: match_prefix.induct) (auto split: if_splits)

lemma match_str_len:
  assumes "match_str kw s = Some s'"
  shows "length s' + length kw \<le> length s"
proof -
  obtain t where t: "match_prefix kw s = Some t" and s': "s' = match_ws t"
    using assms by (auto simp: match_str_def)
  show ?thesis
    using match_prefix_len [OF t] match_ws_len [of t] s' by simp
qed

lemma match_char_len:
  assumes "match_char c s = Some s'"
  shows "length s' < length s"
proof -
  obtain d rest where s: "s = d # rest" and s': "s' = match_ws rest"
    using assms by (auto simp: match_char_def split: list.splits if_splits)
  show ?thesis
    using match_ws_len [of rest] s s' by simp
qed

lemma expect_char_len: "expect_char c s = Inr s' \<Longrightarrow> length s' < length s"
  by (auto simp: expect_char_def split: option.splits dest: match_char_len)

lemma match_number_len:
  assumes "match_number strtod s = Some (v, s')"
  shows "length s' \<le> length s"
proof -
  obtain n where s': "s' = match_ws (drop n s)"
    using assms by (auto simp: match_number_def split: if_splits prod.splits)
  show ?thesis
    using match_ws_len [of "drop n s"] s' by simp
qed

lemma parse_ordinates_len:
  "parse_ordinates strtod n s = Inr (vs, s') \<Longrightarrow> length s' \<le> length s"
proof (induction n arbitrary: s vs)
  case 0
  then show ?case by simp
next
  case (Suc n)
  then show ?case
    by (auto split: option.splits sum.splits dest!: match_number_len) fastforce
qed

text \<open>The loop \<^verbatim>\<open>do { ... verts.push_back(vert); } while (match_char(','))\<close> over the
  vertices of one vertex array.\<close>

function parse_vertices :: "(string \<Rightarrow> 'a \<times> nat) \<Rightarrow> nat \<Rightarrow> string
    \<Rightarrow> string + ('a vertex list \<times> string)" where
  "parse_vertices strtod stride s =
     (case parse_ordinates strtod stride s of
        Inl e \<Rightarrow> Inl e
      | Inr (vert, s1) \<Rightarrow>
          (case match_char CHR '','' s1 of
             None \<Rightarrow> Inr ([vertex_of_run vert], s1)
           | Some s2 \<Rightarrow>
               (case parse_vertices strtod stride s2 of
                  Inl e \<Rightarrow> Inl e
                | Inr (vs, s3) \<Rightarrow> Inr (vertex_of_run vert # vs, s3))))"
  by pat_completeness auto
termination
proof (relation "measure (\<lambda>(strtod, stride, s). length s)")
  show "wf (measure (\<lambda>(strtod, stride, s). length s))" by simp
next
  fix strtod :: "string \<Rightarrow> 'a \<times> nat" and stride s x2 x y x2a
  assume "parse_ordinates strtod stride s = Inr x2" "(x, y) = x2" "match_char CHR '','' y = Some x2a"
  then show "((strtod, stride, x2a), strtod, stride, s) \<in> measure (\<lambda>(strtod, stride, s). length s)"
    using parse_ordinates_len [of strtod stride s x y] match_char_len [of "CHR '',''" y x2a] by simp
qed


declare parse_vertices.simps [simp del]

lemma parse_vertices_len:
  "parse_vertices strtod stride s = Inr (vs, s') \<Longrightarrow> length s' \<le> length s"
proof (induction strtod stride s arbitrary: vs rule: parse_vertices.induct)
  case (1 strtod stride s)
  from "1.prems" obtain vert s1 where o: "parse_ordinates strtod stride s = Inr (vert, s1)"
    by (subst (asm) parse_vertices.simps) (auto split: sum.splits)
  show ?case
  proof (cases "match_char CHR '','' s1")
    case None
    with "1.prems" o have "s' = s1"
      by (subst (asm) parse_vertices.simps) simp
    then show ?thesis using parse_ordinates_len [OF o] by simp
  next
    case (Some s2)
    with "1.prems" o obtain ws where r: "parse_vertices strtod stride s2 = Inr (ws, s')"
      by (subst (asm) parse_vertices.simps) (auto split: sum.splits)
    have "length s' \<le> length s2"
      using "1.IH" [OF o refl Some r] .
    then show ?thesis
      using parse_ordinates_len [OF o] match_char_len [OF Some] by simp
  qed
qed

text \<open>\<^verbatim>\<open>vertex_stride = 2 + has_z + has_m\<close>.\<close>

definition vertex_stride :: "bool \<Rightarrow> bool \<Rightarrow> nat" where
  "vertex_stride z m = 2 + (if z then 1 else 0) + (if m then 1 else 0)"

text \<open>A vertex array between parentheses.\<close>

definition parse_coords :: "(string \<Rightarrow> 'a \<times> nat) \<Rightarrow> nat \<Rightarrow> string
    \<Rightarrow> string + ('a vertex list \<times> string)" where
  "parse_coords strtod stride s =
     (case expect_char CHR ''('' s of
        Inl e \<Rightarrow> Inl e
      | Inr s1 \<Rightarrow>
          (case parse_vertices strtod stride s1 of
             Inl e \<Rightarrow> Inl e
           | Inr (vs, s2) \<Rightarrow>
               (case expect_char CHR '')'' s2 of
                  Inl e \<Rightarrow> Inl e
                | Inr s3 \<Rightarrow> Inr (vs, s3))))"

lemma parse_coords_len:
  assumes "parse_coords strtod stride s = Inr (vs, s')"
  shows "length s' \<le> length s"
proof -
  obtain s1 s2 where "expect_char CHR ''('' s = Inr s1"
    and "parse_vertices strtod stride s1 = Inr (vs, s2)"
    and "expect_char CHR '')'' s2 = Inr s'"
    using assms by (auto simp: parse_coords_def split: sum.splits)
  then show ?thesis
    using expect_char_len [of "CHR ''(''" s s1] parse_vertices_len [of strtod stride s1 vs s2]
          expect_char_len [of "CHR '')''" s2 s'] by simp
qed

text \<open>One pass of the loop over the rings of a POLYGON or the lines of a
  MULTILINESTRING: a new LINESTRING with the flags of the geometry, EMPTY or with its
  vertex array.\<close>

definition parse_line_item :: "(string \<Rightarrow> 'a \<times> nat) \<Rightarrow> bool \<Rightarrow> bool \<Rightarrow> string
    \<Rightarrow> string + ('a geometry \<times> string)" where
  "parse_line_item strtod z m s =
     (case match_str ''EMPTY'' s of
        Some s1 \<Rightarrow> Inr (Geometry LINESTRING z m [] [], s1)
      | None \<Rightarrow>
          (case parse_coords strtod (vertex_stride z m) s of
             Inl e \<Rightarrow> Inl e
           | Inr (vs, s1) \<Rightarrow> Inr (Geometry LINESTRING z m vs [], s1)))"

lemma parse_line_item_len:
  assumes "parse_line_item strtod z m s = Inr (g, s')"
  shows "length s' \<le> length s"
proof (cases "match_str ''EMPTY'' s")
  case None
  then obtain vs where
    "parse_coords strtod (vertex_stride z m) s = Inr (vs, s')"
    using assms by (auto simp: parse_line_item_def split: sum.splits)
  then show ?thesis by (rule parse_coords_len)
next
  case (Some s1)
  then have "s' = s1" using assms by (simp add: parse_line_item_def)
  then show ?thesis using match_str_len [OF Some] by simp
qed

text \<open>The loop \<^verbatim>\<open>do { ... geom->append_part(line); } while (match_char(','))\<close>.\<close>

function parse_lines :: "(string \<Rightarrow> 'a \<times> nat) \<Rightarrow> bool \<Rightarrow> bool \<Rightarrow> string
    \<Rightarrow> string + ('a geometry list \<times> string)" where
  "parse_lines strtod z m s =
     (case parse_line_item strtod z m s of
        Inl e \<Rightarrow> Inl e
      | Inr (line, s1) \<Rightarrow>
          (case match_char CHR '','' s1 of
             None \<Rightarrow> Inr ([line], s1)
           | Some s2 \<Rightarrow>
               (case parse_lines strtod z m s2 of
                  Inl e \<Rightarrow> Inl e
                | Inr (ls, s3) \<Rightarrow> Inr (line # ls, s3))))"
  by pat_completeness auto
termination
  by (relation "measure (\<lambda>(strtod, z, m, s). length s)")
     (auto dest!: parse_line_item_len match_char_len)


declare parse_lines.simps [simp del]

lemma parse_lines_len:
  "parse_lines strtod z m s = Inr (ls, s') \<Longrightarrow> length s' \<le> length s"
proof (induction strtod z m s arbitrary: ls rule: parse_lines.induct)
  case (1 strtod z m s)
  from "1.prems" obtain line s1 where o: "parse_line_item strtod z m s = Inr (line, s1)"
    by (subst (asm) parse_lines.simps) (auto split: sum.splits)
  show ?case
  proof (cases "match_char CHR '','' s1")
    case None
    with "1.prems" o have "s' = s1"
      by (subst (asm) parse_lines.simps) simp
    then show ?thesis using parse_line_item_len [OF o] by simp
  next
    case (Some s2)
    with "1.prems" o obtain ws where r: "parse_lines strtod z m s2 = Inr (ws, s')"
      by (subst (asm) parse_lines.simps) (auto split: sum.splits)
    have "length s' \<le> length s2"
      using "1.IH" [OF o refl Some r] .
    then show ?thesis
      using parse_line_item_len [OF o] match_char_len [OF Some] by simp
  qed
qed

text \<open>One pass of the loop over the polygons of a MULTIPOLYGON.\<close>

definition parse_polygon_item :: "(string \<Rightarrow> 'a \<times> nat) \<Rightarrow> bool \<Rightarrow> bool \<Rightarrow> string
    \<Rightarrow> string + ('a geometry \<times> string)" where
  "parse_polygon_item strtod z m s =
     (case match_str ''EMPTY'' s of
        Some s1 \<Rightarrow> Inr (Geometry POLYGON z m [] [], s1)
      | None \<Rightarrow>
          (case expect_char CHR ''('' s of
             Inl e \<Rightarrow> Inl e
           | Inr s1 \<Rightarrow>
               (case parse_lines strtod z m s1 of
                  Inl e \<Rightarrow> Inl e
                | Inr (rings, s2) \<Rightarrow>
                    (case expect_char CHR '')'' s2 of
                       Inl e \<Rightarrow> Inl e
                     | Inr s3 \<Rightarrow> Inr (Geometry POLYGON z m [] rings, s3)))))"

lemma parse_polygon_item_len:
  assumes "parse_polygon_item strtod z m s = Inr (g, s')"
  shows "length s' \<le> length s"
proof (cases "match_str ''EMPTY'' s")
  case None
  then obtain s1 rings s2 where "expect_char CHR ''('' s = Inr s1"
    and "parse_lines strtod z m s1 = Inr (rings, s2)"
    and "expect_char CHR '')'' s2 = Inr s'"
    using assms by (auto simp: parse_polygon_item_def split: sum.splits)
  then show ?thesis
    using expect_char_len [of "CHR ''(''" s s1] parse_lines_len [of strtod z m s1 rings s2]
          expect_char_len [of "CHR '')''" s2 s'] by simp
next
  case (Some s1)
  then have "s' = s1" using assms by (simp add: parse_polygon_item_def)
  then show ?thesis using match_str_len [OF Some] by simp
qed

function parse_polygons :: "(string \<Rightarrow> 'a \<times> nat) \<Rightarrow> bool \<Rightarrow> bool \<Rightarrow> string
    \<Rightarrow> string + ('a geometry list \<times> string)" where
  "parse_polygons strtod z m s =
     (case parse_polygon_item strtod z m s of
        Inl e \<Rightarrow> Inl e
      | Inr (poly, s1) \<Rightarrow>
          (case match_char CHR '','' s1 of
             None \<Rightarrow> Inr ([poly], s1)
           | Some s2 \<Rightarrow>
               (case parse_polygons strtod z m s2 of
                  Inl e \<Rightarrow> Inl e
                | Inr (ps, s3) \<Rightarrow> Inr (poly # ps, s3))))"
  by pat_completeness auto
termination
  by (relation "measure (\<lambda>(strtod, z, m, s). length s)")
     (auto dest!: parse_polygon_item_len match_char_len)

declare parse_polygons.simps [simp del]


text \<open>One pass of the loop over the points of a MULTIPOINT, where the parentheses
  around a point are optional.\<close>

definition parse_point_item :: "(string \<Rightarrow> 'a \<times> nat) \<Rightarrow> bool \<Rightarrow> bool \<Rightarrow> string
    \<Rightarrow> string + ('a geometry \<times> string)" where
  "parse_point_item strtod z m s =
     (let (has_paren, s1) = (case match_char CHR ''('' s of Some s' \<Rightarrow> (True, s') | None \<Rightarrow> (False, s))
      in (case (case match_str ''EMPTY'' s1 of
                  Some s2 \<Rightarrow> Inr (Geometry POINT z m [] [], s2)
                | None \<Rightarrow>
                    (case parse_ordinates strtod (vertex_stride z m) s1 of
                       Inl e \<Rightarrow> Inl e
                     | Inr (vert, s2) \<Rightarrow> Inr (Geometry POINT z m [vertex_of_run vert] [], s2))) of
            Inl e \<Rightarrow> Inl e
          | Inr (point, s2) \<Rightarrow>
              if has_paren
              then (case expect_char CHR '')'' s2 of Inl e \<Rightarrow> Inl e | Inr s3 \<Rightarrow> Inr (point, s3))
              else Inr (point, s2)))"

lemma parse_point_item_len:
  assumes "parse_point_item strtod z m s = Inr (g, s')"
  shows "length s' \<le> length s"
proof -
  obtain has_paren s1 where p: "(case match_char CHR ''('' s of Some s' \<Rightarrow> (True, s') | None \<Rightarrow> (False, s))
        = (has_paren, s1)"
    by (cases "match_char CHR ''('' s") auto
  have l1: "length s1 \<le> length s"
    using p by (auto split: option.splits dest: match_char_len)
  obtain point s2 where b: "(case match_str ''EMPTY'' s1 of
                  Some s2 \<Rightarrow> Inr (Geometry POINT z m [] [], s2)
                | None \<Rightarrow>
                    (case parse_ordinates strtod (vertex_stride z m) s1 of
                       Inl e \<Rightarrow> Inl e
                     | Inr (vert, s2) \<Rightarrow> Inr (Geometry POINT z m [vertex_of_run vert] [], s2)))
         = Inr (point, s2)"
    and e: "(if has_paren
              then (case expect_char CHR '')'' s2 of Inl e \<Rightarrow> Inl e | Inr s3 \<Rightarrow> Inr (point, s3))
              else Inr (point, s2)) = Inr (g, s')"
    using assms unfolding parse_point_item_def p by (auto simp: Let_def split: sum.splits)
  have l2: "length s2 \<le> length s1"
    using b by (auto split: option.splits sum.splits dest!: match_str_len parse_ordinates_len)
  have l3: "length s' \<le> length s2"
    using e by (auto split: if_splits sum.splits dest!: expect_char_len)
  show ?thesis using l1 l2 l3 by simp
qed

function parse_points :: "(string \<Rightarrow> 'a \<times> nat) \<Rightarrow> bool \<Rightarrow> bool \<Rightarrow> string
    \<Rightarrow> string + ('a geometry list \<times> string)" where
  "parse_points strtod z m s =
     (case parse_point_item strtod z m s of
        Inl e \<Rightarrow> Inl e
      | Inr (point, s1) \<Rightarrow>
          (case match_char CHR '','' s1 of
             None \<Rightarrow> Inr ([point], s1)
           | Some s2 \<Rightarrow>
               (case parse_points strtod z m s2 of
                  Inl e \<Rightarrow> Inl e
                | Inr (ps, s3) \<Rightarrow> Inr (point # ps, s3))))"
  by pat_completeness auto
termination
  by (relation "measure (\<lambda>(strtod, z, m, s). length s)")
     (auto dest!: parse_point_item_len match_char_len)

declare parse_points.simps [simp del]



text \<open>The keyword of the geometry type, tried in the order of the source.\<close>

definition parse_type :: "string \<Rightarrow> (geometry_type \<times> string) option" where
  "parse_type s =
     (case match_str ''POINT'' s of Some s' \<Rightarrow> Some (POINT, s') | None \<Rightarrow>
     (case match_str ''LINESTRING'' s of Some s' \<Rightarrow> Some (LINESTRING, s') | None \<Rightarrow>
     (case match_str ''POLYGON'' s of Some s' \<Rightarrow> Some (POLYGON, s') | None \<Rightarrow>
     (case match_str ''MULTIPOINT'' s of Some s' \<Rightarrow> Some (MULTI_POINT, s') | None \<Rightarrow>
     (case match_str ''MULTILINESTRING'' s of Some s' \<Rightarrow> Some (MULTI_LINESTRING, s') | None \<Rightarrow>
     (case match_str ''MULTIPOLYGON'' s of Some s' \<Rightarrow> Some (MULTI_POLYGON, s') | None \<Rightarrow>
     (case match_str ''GEOMETRYCOLLECTION'' s of Some s' \<Rightarrow> Some (GEOMETRY_COLLECTION, s') | None \<Rightarrow>
     (case match_str ''INVALID'' s of Some s' \<Rightarrow> Some (INVALID, s') | None \<Rightarrow> None))))))))"

text \<open>The dimension letters after the keyword: \<^verbatim>\<open>if (match_char('z')) geom->set_z(true);
  if (match_char('m')) geom->set_m(true);\<close>\<close>

definition parse_flags :: "'a geometry \<Rightarrow> string \<Rightarrow> 'a geometry \<times> string" where
  "parse_flags geom s =
     (let (g1, s1) = (case match_char CHR ''z'' s of Some s' \<Rightarrow> (set_z True geom, s')
                                                    | None \<Rightarrow> (geom, s))
      in (case match_char CHR ''m'' s1 of Some s' \<Rightarrow> (set_m True g1, s') | None \<Rightarrow> (g1, s1)))"

text \<open>The parts read by a loop, appended one after the other.\<close>

definition append_parts :: "'a geometry \<Rightarrow> 'a geometry list \<Rightarrow> 'a geometry" where
  "append_parts g ps = fold (\<lambda>p g'. append_part g' p) ps g"

text \<open>A pass of the main loop either goes on with the input left, the geometry to read
  next and its ancestors, or ends the parse: with the error message (\<^verbatim>\<open>false\<close>) or with the
  tree (\<^verbatim>\<open>true\<close>).\<close>

datatype 'a wkt_step =
    Wkt_continue string "'a geometry" "'a geometry list"
  | Wkt_stop "string + 'a geometry"

text \<open>
  The inner loop of \<^verbatim>\<open>wkt_reader::try_parse\<close>, entered when a geometry is complete:
  without a parent the parse is done; after a comma a new sibling is opened in the
  parent collection; else the collection must close and the loop climbs.
\<close>

fun wkt_ascend :: "string \<Rightarrow> 'a geometry \<Rightarrow> 'a geometry list \<Rightarrow> 'a wkt_step" where
  "wkt_ascend s geom [] = Wkt_stop (Inr geom)"
| "wkt_ascend s geom (parent # up) =
     (case match_char CHR '','' s of
        Some s' \<Rightarrow> Wkt_continue s' (Geometry INVALID False False [] []) (append_part parent geom # up)
      | None \<Rightarrow>
          (case expect_char CHR '')'' s of
             Inl e \<Rightarrow> Wkt_stop (Inl e)
           | Inr s' \<Rightarrow> wkt_ascend s' (append_part parent geom) up))"

text \<open>\<^verbatim>\<open>expect_char('('); ... expect_char(')');\<close> around a loop.\<close>

definition parenthesized :: "(string \<Rightarrow> string + ('b \<times> string)) \<Rightarrow> string \<Rightarrow> string + ('b \<times> string)" where
  "parenthesized p s =
     (case expect_char CHR ''('' s of
        Inl e \<Rightarrow> Inl e
      | Inr s1 \<Rightarrow>
          (case p s1 of
             Inl e \<Rightarrow> Inl e
           | Inr (x, s2) \<Rightarrow>
               (case expect_char CHR '')'' s2 of
                  Inl e \<Rightarrow> Inl e
                | Inr s3 \<Rightarrow> Inr (x, s3))))"

text \<open>The \<^verbatim>\<open>switch\<close> on the type of a geometry that is not EMPTY. A GEOMETRYCOLLECTION
  opens its first child, of type INVALID and without flags, and the main loop goes on
  with it.\<close>

definition wkt_body :: "(string \<Rightarrow> 'a \<times> nat) \<Rightarrow> geometry_type \<Rightarrow> string \<Rightarrow> 'a geometry
    \<Rightarrow> 'a geometry list \<Rightarrow> 'a wkt_step" where
  "wkt_body strtod t s geom frames =
     (let z = has_z geom; m = has_m geom
      in case t of
           POINT \<Rightarrow>
             (case parenthesized (parse_ordinates strtod (vertex_stride z m)) s of
                Inl e \<Rightarrow> Wkt_stop (Inl e)
              | Inr (vert, s') \<Rightarrow> wkt_ascend s' (set_vertex_array [vertex_of_run vert] geom) frames)
         | LINESTRING \<Rightarrow>
             (case parenthesized (parse_vertices strtod (vertex_stride z m)) s of
                Inl e \<Rightarrow> Wkt_stop (Inl e)
              | Inr (vs, s') \<Rightarrow> wkt_ascend s' (set_vertex_array vs geom) frames)
         | POLYGON \<Rightarrow>
             (case parenthesized (parse_lines strtod z m) s of
                Inl e \<Rightarrow> Wkt_stop (Inl e)
              | Inr (rings, s') \<Rightarrow> wkt_ascend s' (append_parts geom rings) frames)
         | MULTI_POINT \<Rightarrow>
             (case parenthesized (parse_points strtod z m) s of
                Inl e \<Rightarrow> Wkt_stop (Inl e)
              | Inr (points, s') \<Rightarrow> wkt_ascend s' (append_parts geom points) frames)
         | MULTI_LINESTRING \<Rightarrow>
             (case parenthesized (parse_lines strtod z m) s of
                Inl e \<Rightarrow> Wkt_stop (Inl e)
              | Inr (ls, s') \<Rightarrow> wkt_ascend s' (append_parts geom ls) frames)
         | MULTI_POLYGON \<Rightarrow>
             (case parenthesized (parse_polygons strtod z m) s of
                Inl e \<Rightarrow> Wkt_stop (Inl e)
              | Inr (polys, s') \<Rightarrow> wkt_ascend s' (append_parts geom polys) frames)
         | GEOMETRY_COLLECTION \<Rightarrow>
             (case expect_char CHR ''('' s of
                Inl e \<Rightarrow> Wkt_stop (Inl e)
              | Inr s' \<Rightarrow> Wkt_continue s' (Geometry INVALID False False [] []) (geom # frames))
         | INVALID \<Rightarrow> Wkt_stop (Inl ''Unsupported geometry type''))"

text \<open>
  One pass of the main loop: the type, the flags, the comparison of the flags with those
  of the root, then EMPTY or the body.
\<close>

definition wkt_step :: "(string \<Rightarrow> 'a \<times> nat) \<Rightarrow> string \<Rightarrow> 'a geometry \<Rightarrow> 'a geometry list
    \<Rightarrow> 'a wkt_step" where
  "wkt_step strtod s geom0 frames =
     (case parse_type s of
        None \<Rightarrow> Wkt_stop (Inl ''Expected geometry type'')
      | Some (t, s1) \<Rightarrow>
          (case parse_flags (set_type t geom0) s1 of
             (geom, s2) \<Rightarrow>
               if has_m geom \<noteq> has_m (last (geom # frames)) \<or>
                  has_z geom \<noteq> has_z (last (geom # frames))
               then Wkt_stop (Inl ''Mixed Z and M values are not supported'')
               else (case match_str ''EMPTY'' s2 of
                       Some s3 \<Rightarrow> wkt_ascend s3 geom frames
                     | None \<Rightarrow> wkt_body strtod t s2 geom frames)))"











text \<open>Every node of the tree, the rings and points of multi-part geometries included,
  carries the flags \<open>z\<close> and \<open>m\<close>.\<close>

fun uniform_zm :: "bool \<Rightarrow> bool \<Rightarrow> 'a geometry \<Rightarrow> bool" where
  "uniform_zm z m (Geometry t gz gm vs ps) =
     (gz = z \<and> gm = m \<and> (\<forall>p \<in> set ps. uniform_zm z m p))"


section \<open>Euclidean distance (sgl.cpp)\<close>

text \<open>
  The distance functions on real ordinates, for geometries that carry no prepared index
  (the branches behind \<^verbatim>\<open>is_prepared()\<close> are the subject of the next section). The running
  minimum of \<^verbatim>\<open>distance_result\<close> starts at \<^verbatim>\<open>+infinity\<close>, so it is a \<open>double\<close>.
\<close>

definition vertex_distance_squared :: "real vertex_xy \<Rightarrow> real vertex_xy \<Rightarrow> real" where
  "vertex_distance_squared lhs rhs = (xy_x lhs - xy_x rhs) ^ 2 + (xy_y lhs - xy_y rhs) ^ 2"

definition vertex_distance :: "real vertex_xy \<Rightarrow> real vertex_xy \<Rightarrow> real" where
  "vertex_distance lhs rhs =
     (let dx = xy_x lhs - xy_x rhs;
          dy = xy_y lhs - xy_y rhs
      in sqrt (dx * dx + dy * dy))"

definition vertex_segment_distance :: "real vertex_xy \<Rightarrow> real vertex_xy \<Rightarrow> real vertex_xy \<Rightarrow> real" where
  "vertex_segment_distance p v w =
     (let l2 = vertex_distance_squared v w
      in if l2 = 0 then vertex_distance p v
         else
           (let t = ((xy_x p - xy_x v) * (xy_x w - xy_x v) + (xy_y p - xy_y v) * (xy_y w - xy_y v)) / l2;
                t_clamped = math_max 0 (math_min 1 t)
            in vertex_distance p
                 (Vertex_xy (xy_x v + t_clamped * (xy_x w - xy_x v))
                            (xy_y v + t_clamped * (xy_y w - xy_y v)))))"

definition segment_segment_distance ::
    "real vertex_xy \<Rightarrow> real vertex_xy \<Rightarrow> real vertex_xy \<Rightarrow> real vertex_xy \<Rightarrow> real" where
  "segment_segment_distance a b c d =
     (if xy_x a = xy_x b \<and> xy_y a = xy_y b then vertex_segment_distance a c d
      else if xy_x c = xy_x d \<and> xy_y c = xy_y d then vertex_segment_distance c a b
      else
        (let closest_endpoints =
               math_min (math_min (vertex_segment_distance a c d) (vertex_segment_distance b c d))
                        (math_min (vertex_segment_distance c a b) (vertex_segment_distance d a b));
             denominator = (xy_x b - xy_x a) * (xy_y d - xy_y c) - (xy_y b - xy_y a) * (xy_x d - xy_x c)
         in if denominator = 0 then closest_endpoints
            else
              (let r = (xy_y a - xy_y c) * (xy_x d - xy_x c) - (xy_x a - xy_x c) * (xy_y d - xy_y c);
                   s = (xy_y a - xy_y c) * (xy_x b - xy_x a) - (xy_x a - xy_x c) * (xy_y b - xy_y a);
                   r_norm = r / denominator;
                   s_norm = s / denominator
               in if r_norm < 0 \<or> r_norm > 1 \<or> s_norm < 0 \<or> s_norm > 1 then closest_endpoints
                  else 0)))"

text \<open>\<^verbatim>\<open>distance_result::set\<close> keeps the smaller of the running distance and the new one.\<close>

definition distance_result_set :: "double \<Rightarrow> real \<Rightarrow> double" where
  "distance_result_set distance d = math_min distance (Fin d)"

text \<open>
  The read \<^verbatim>\<open>memcpy(&v, vertex_array, sizeof(vertex_xy))\<close> of the first vertex. On a vertex
  array without vertices the source reads through a pointer to no vertex at all; that
  read is \<open>None\<close>, and so is the result of every function that makes it.
\<close>

definition first_vertex :: "'a geometry \<Rightarrow> 'a vertex_xy option" where
  "first_vertex g = (case vertices_xy g of [] \<Rightarrow> None | v # _ \<Rightarrow> Some v)"

text \<open>The loop over the segments of a line, against one vertex \<open>p\<close>.\<close>

fun vertex_segments_loop :: "real vertex_xy \<Rightarrow> real vertex_xy \<Rightarrow> real vertex_xy list \<Rightarrow> double \<Rightarrow> double" where
  "vertex_segments_loop p prev [] result = result"
| "vertex_segments_loop p prev (nxt # rest) result =
     vertex_segments_loop p nxt rest (distance_result_set result (vertex_segment_distance p prev nxt))"

definition distance_point_point :: "real geometry \<Rightarrow> real geometry \<Rightarrow> double \<Rightarrow> (bool \<times> double) option" where
  "distance_point_point lhs rhs result =
     (if is_empty lhs \<or> is_empty rhs then Some (False, result)
      else (case (first_vertex lhs, first_vertex rhs) of
              (Some lhs_vertex, Some rhs_vertex) \<Rightarrow>
                Some (True, distance_result_set result (vertex_distance lhs_vertex rhs_vertex))
            | _ \<Rightarrow> None))"

definition distance_point_lines :: "real geometry \<Rightarrow> real geometry \<Rightarrow> double \<Rightarrow> (bool \<times> double) option" where
  "distance_point_lines lhs rhs result =
     (if is_empty lhs \<or> is_empty rhs then Some (False, result)
      else (case (first_vertex lhs, vertices_xy rhs) of
              (Some lhs_vertex, rhs_vertex # rest) \<Rightarrow>
                if get_vertex_count rhs = 1
                then Some (True, distance_result_set result (vertex_distance lhs_vertex rhs_vertex))
                else Some (True, vertex_segments_loop lhs_vertex rhs_vertex rest result)
            | _ \<Rightarrow> None))"

definition distance_point_polyg :: "real geometry \<Rightarrow> real geometry \<Rightarrow> double \<Rightarrow> (bool \<times> double) option" where
  "distance_point_polyg lhs rhs result =
     (if is_empty lhs \<or> is_empty rhs then Some (False, result)
      else (case (first_vertex lhs, parts rhs) of
              (Some lhs_vertex, shell # holes) \<Rightarrow>
                (case vertex_in_ring lhs_vertex shell of
                   EXTERIOR \<Rightarrow> distance_point_lines lhs shell result
                 | INTERIOR \<Rightarrow>
                     (case find (\<lambda>ring. vertex_in_ring lhs_vertex ring \<noteq> EXTERIOR) holes of
                        Some ring \<Rightarrow> distance_point_lines lhs ring result
                      | None \<Rightarrow> Some (True, distance_result_set result 0))
                 | _ \<Rightarrow> Some (True, distance_result_set result 0))
            | _ \<Rightarrow> None))"

text \<open>The two nested loops of \<^verbatim>\<open>distance_lines_lines\<close> over the segments of both lines.\<close>

fun segments_inner_loop ::
    "real vertex_xy \<Rightarrow> real vertex_xy \<Rightarrow> real vertex_xy \<Rightarrow> real vertex_xy list \<Rightarrow> double \<Rightarrow> double" where
  "segments_inner_loop lhs_prev lhs_next rhs_prev [] result = result"
| "segments_inner_loop lhs_prev lhs_next rhs_prev (rhs_next # rest) result =
     segments_inner_loop lhs_prev lhs_next rhs_next rest
       (distance_result_set result (segment_segment_distance lhs_prev lhs_next rhs_prev rhs_next))"

fun segments_outer_loop ::
    "real vertex_xy \<Rightarrow> real vertex_xy list \<Rightarrow> real vertex_xy \<Rightarrow> real vertex_xy list \<Rightarrow> double \<Rightarrow> double" where
  "segments_outer_loop lhs_prev [] rhs_first rhs_rest result = result"
| "segments_outer_loop lhs_prev (lhs_next # rest) rhs_first rhs_rest result =
     segments_outer_loop lhs_next rest rhs_first rhs_rest
       (segments_inner_loop lhs_prev lhs_next rhs_first rhs_rest result)"

definition distance_lines_lines :: "real geometry \<Rightarrow> real geometry \<Rightarrow> double \<Rightarrow> (bool \<times> double) option" where
  "distance_lines_lines lhs rhs result =
     (if is_empty lhs \<or> is_empty rhs then Some (False, result)
      else (case (vertices_xy lhs, vertices_xy rhs) of
              (lhs_prev # lhs_rest, rhs_prev # rhs_rest) \<Rightarrow>
                if get_vertex_count lhs = 1 \<and> get_vertex_count rhs = 1
                then Some (True, distance_result_set result (vertex_distance lhs_prev rhs_prev))
                else if get_vertex_count lhs = 1
                then Some (True, vertex_segments_loop lhs_prev rhs_prev rhs_rest result)
                else if get_vertex_count rhs = 1
                then Some (True, vertex_segments_loop rhs_prev lhs_prev lhs_rest result)
                else Some (True, segments_outer_loop lhs_prev lhs_rest rhs_prev rhs_rest result)
            | _ \<Rightarrow> None))"

text \<open>The first loop over the holes in \<^verbatim>\<open>distance_lines_polyg\<close>: it returns \<^verbatim>\<open>false\<close> at the
  first hole for which \<^verbatim>\<open>distance_lines_lines\<close> does.\<close>

fun rings_loop :: "real geometry \<Rightarrow> real geometry list \<Rightarrow> double \<Rightarrow> (bool \<times> double) option" where
  "rings_loop lhs [] result = Some (True, result)"
| "rings_loop lhs (ring # rest) result =
     (case distance_lines_lines lhs ring result of
        None \<Rightarrow> None
      | Some (found, result') \<Rightarrow> if found then rings_loop lhs rest result' else Some (False, result'))"

definition distance_lines_polyg :: "real geometry \<Rightarrow> real geometry \<Rightarrow> double \<Rightarrow> (bool \<times> double) option" where
  "distance_lines_polyg lhs rhs result =
     (if is_empty lhs \<or> is_empty rhs then Some (False, result)
      else (case (first_vertex lhs, parts rhs) of
              (Some lhs_vertex, shell # holes) \<Rightarrow>
                if vertex_in_ring lhs_vertex shell = EXTERIOR then distance_lines_lines lhs shell result
                else (case rings_loop lhs holes result of
                        None \<Rightarrow> None
                      | Some (found, result') \<Rightarrow>
                          if \<not> found then Some (False, result')
                          else if find (\<lambda>ring. vertex_in_ring lhs_vertex ring \<noteq> EXTERIOR) holes \<noteq> None
                          then Some (True, result')
                          else Some (True, distance_result_set result' 0))
            | _ \<Rightarrow> None))"

definition distance_polyg_polyg :: "real geometry \<Rightarrow> real geometry \<Rightarrow> double \<Rightarrow> (bool \<times> double) option" where
  "distance_polyg_polyg lhs rhs result =
     (if is_empty lhs \<or> is_empty rhs then Some (False, result)
      else (case (parts lhs, parts rhs) of
              (lhs_shell # lhs_holes, rhs_shell # rhs_holes) \<Rightarrow>
                (case (first_vertex lhs_shell, first_vertex rhs_shell) of
                   (Some lhs_vert, Some rhs_vert) \<Rightarrow>
                     if vertex_in_ring lhs_vert rhs_shell = EXTERIOR \<and>
                        vertex_in_ring rhs_vert lhs_shell = EXTERIOR
                     then distance_lines_lines lhs_shell rhs_shell result
                     else
                       (case find (\<lambda>ring. vertex_in_ring rhs_vert ring \<noteq> EXTERIOR) lhs_holes of
                          Some lhs_ring \<Rightarrow> distance_lines_lines lhs_ring rhs_shell result
                        | None \<Rightarrow>
                            (case find (\<lambda>ring. vertex_in_ring lhs_vert ring \<noteq> EXTERIOR) rhs_holes of
                               Some rhs_ring \<Rightarrow> distance_lines_lines lhs_shell rhs_ring result
                             | None \<Rightarrow> Some (True, distance_result_set result 0)))
                 | _ \<Rightarrow> None)
            | _ \<Rightarrow> None))"

definition distance_dispatch :: "real geometry \<Rightarrow> real geometry \<Rightarrow> double \<Rightarrow> (bool \<times> double) option" where
  "distance_dispatch lhs rhs result =
     (case gtype lhs of
        POINT \<Rightarrow>
          (case gtype rhs of
             POINT \<Rightarrow> distance_point_point lhs rhs result
           | LINESTRING \<Rightarrow> distance_point_lines lhs rhs result
           | POLYGON \<Rightarrow> distance_point_polyg lhs rhs result
           | _ \<Rightarrow> Some (False, result))
      | LINESTRING \<Rightarrow>
          (case gtype rhs of
             POINT \<Rightarrow> distance_point_lines rhs lhs result
           | LINESTRING \<Rightarrow> distance_lines_lines lhs rhs result
           | POLYGON \<Rightarrow> distance_lines_polyg lhs rhs result
           | _ \<Rightarrow> Some (False, result))
      | POLYGON \<Rightarrow>
          (case gtype rhs of
             POINT \<Rightarrow> distance_point_polyg rhs lhs result
           | LINESTRING \<Rightarrow> distance_lines_polyg rhs lhs result
           | POLYGON \<Rightarrow> distance_polyg_polyg lhs rhs result
           | _ \<Rightarrow> Some (False, result))
      | _ \<Rightarrow> Some (False, result))"

text \<open>\<^verbatim>\<open>visit_leaf_geometries\<close> calls the callback on every POINT, LINESTRING and POLYGON,
  descending through the four collection types.\<close>

fun visit_leaf_geometries :: "'a geometry \<Rightarrow> 'a geometry list" where
  "visit_leaf_geometries (Geometry t z m vs ps) =
     (case t of
        INVALID \<Rightarrow> []
      | POINT \<Rightarrow> [Geometry t z m vs ps]
      | LINESTRING \<Rightarrow> [Geometry t z m vs ps]
      | POLYGON \<Rightarrow> [Geometry t z m vs ps]
      | _ \<Rightarrow> concat (map visit_leaf_geometries ps))"

text \<open>
  \<^verbatim>\<open>ops::get_euclidean_distance\<close>: the pair is the returned flag and the value written to
  \<^verbatim>\<open>result\<close>.
\<close>

definition distance_callback ::
    "real geometry \<Rightarrow> real geometry \<Rightarrow> (bool \<times> double) option \<Rightarrow> (bool \<times> double) option" where
  "distance_callback lhs rhs state =
     (case state of
        None \<Rightarrow> None
      | Some (found, distance) \<Rightarrow>
          (case distance_dispatch lhs rhs distance of
             None \<Rightarrow> None
           | Some (hit, distance') \<Rightarrow> Some (found \<or> hit, distance')))"

definition get_euclidean_distance :: "real geometry \<Rightarrow> real geometry \<Rightarrow> (bool \<times> double) option" where
  "get_euclidean_distance lhs_geom rhs_geom =
     fold (\<lambda>lhs. fold (distance_callback lhs) (visit_leaf_geometries rhs_geom))
          (visit_leaf_geometries lhs_geom) (Some (False, PInf))"

section \<open>The prepared index (sgl.cpp, prepared_geometry)\<close>

text \<open>
  A prepared geometry is a geometry with the prepared flag and, for a LINESTRING, a tree
  of bounding boxes over runs of \<^verbatim>\<open>NODE_SIZE\<close> vertices: \<open>level_array\<close> lists the levels
  from the root to the leaves, each level a list of boxes. Ordinates are real numbers;
  the counters are \<^verbatim>\<open>uint32_t\<close> in the source and natural numbers here.
\<close>

definition NODE_SIZE :: nat where
  "NODE_SIZE = 32"

datatype prepared_index = Prepared_index (level_array: "real extent_xy list list") (items_count: nat)

definition level_count :: "prepared_index \<Rightarrow> nat" where
  "level_count idx = length (level_array idx)"

datatype prepared_geometry =
  Prepared_geometry (pg_type: geometry_type) (pg_has_z: bool) (pg_has_m: bool)
    (pg_vertex_array: "real vertex list") (pg_parts: "prepared_geometry list")
    (is_prepared: bool) (index: prepared_index)

definition pg_vertices_xy :: "prepared_geometry \<Rightarrow> real vertex_xy list" where
  "pg_vertices_xy g = map (\<lambda>v. Vertex_xy (vx v) (vy v)) (pg_vertex_array g)"

definition pg_is_empty :: "prepared_geometry \<Rightarrow> bool" where
  "pg_is_empty g =
     (if pg_type g \<in> {POLYGON, MULTI_POINT, MULTI_LINESTRING, MULTI_POLYGON, GEOMETRY_COLLECTION}
      then pg_parts g = [] else pg_vertex_array g = [])"

text \<open>\<^verbatim>\<open>extent_xy::smallest()\<close>, \<^verbatim>\<open>distance_to_sq\<close> and \<^verbatim>\<open>get_area\<close> on real ordinates.\<close>

definition real_extent_xy_smallest :: "real extent_xy" where
  "real_extent_xy_smallest =
     Extent_xy (Vertex_xy dbl_max dbl_max) (Vertex_xy (- dbl_max) (- dbl_max))"

definition distance_to_sq :: "real extent_xy \<Rightarrow> real extent_xy \<Rightarrow> real" where
  "distance_to_sq this other =
     (let dx = math_max 0 (math_max (xy_x (xy_min this) - xy_x (xy_max other))
                                    (xy_x (xy_min other) - xy_x (xy_max this)));
          dy = math_max 0 (math_max (xy_y (xy_min this) - xy_y (xy_max other))
                                    (xy_y (xy_min other) - xy_y (xy_max this)))
      in dx * dx + dy * dy)"

definition extent_get_area :: "real extent_xy \<Rightarrow> real" where
  "extent_get_area this =
     (if xy_x (xy_min this) \<ge> xy_x (xy_max this) \<or> xy_y (xy_min this) \<ge> xy_y (xy_max this) then 0
      else (xy_x (xy_max this) - xy_x (xy_min this)) * (xy_y (xy_max this) - xy_y (xy_min this)))"

subsection \<open>\<^verbatim>\<open>prepared_geometry::build\<close>\<close>

text \<open>
  The first loop: \<open>layer_bound[k] = ceil(count / NODE_SIZE ^ k)\<close> for \<open>k = 0, 1, \<dots>\<close> up to and
  including the first bound that is at most 1. The array of the source has room for
  \<^verbatim>\<open>MAX_DEPTH\<close> = 8 bounds; a \<^verbatim>\<open>uint32_t\<close> count gives at most 7.
\<close>

function layer_bounds :: "nat \<Rightarrow> nat \<Rightarrow> nat list" where
  "layer_bounds count layer =
     (let bound = nat \<lceil>real count / real NODE_SIZE ^ layer\<rceil>
      in if bound \<le> 1 then [bound] else bound # layer_bounds count (Suc layer))"
  by pat_completeness auto

lemma layer_bounds_step:
  assumes "\<not> real count / real NODE_SIZE ^ layer \<le> 1"
  shows "count - NODE_SIZE * NODE_SIZE ^ layer < count - NODE_SIZE ^ layer"
proof -
  have "NODE_SIZE ^ layer < count"
  proof (rule ccontr)
    assume "\<not> NODE_SIZE ^ layer < count"
    then have "real count \<le> real NODE_SIZE ^ layer"
      by (metis not_less of_nat_le_iff of_nat_power)
    moreover have "0 < real NODE_SIZE ^ layer"
      by (simp add: NODE_SIZE_def)
    ultimately have "real count / real NODE_SIZE ^ layer \<le> 1"
      by (simp add: divide_le_eq)
    with assms show False
      by simp
  qed
  moreover have "NODE_SIZE ^ layer < NODE_SIZE * NODE_SIZE ^ layer"
    by (simp add: NODE_SIZE_def)
  ultimately show ?thesis
    by arith
qed

termination layer_bounds
  by (relation "measure (\<lambda>(count, layer). count - NODE_SIZE ^ layer)")
     (auto intro: layer_bounds_step)

declare layer_bounds.simps [simp del]

text \<open>The box of leaf entry \<open>i\<close>: the vertices \<open>i * NODE_SIZE\<close> up to, and excluding,
  \<open>min (i * NODE_SIZE + NODE_SIZE + 1, vertex_count)\<close>.\<close>

definition leaf_box :: "real vertex_xy list \<Rightarrow> nat \<Rightarrow> real extent_xy" where
  "leaf_box vs i =
     (let beg_idx = i * NODE_SIZE;
          end_idx = math_min (beg_idx + NODE_SIZE + 1) (length vs)
      in fold (\<lambda>j box. merge_xy box (vs ! j)) [beg_idx ..< end_idx] real_extent_xy_smallest)"

text \<open>The box of entry \<open>j\<close> of an upper level, over \<^verbatim>\<open>NODE_SIZE\<close> boxes of the level below.\<close>

definition merge_box :: "real extent_xy \<Rightarrow> real extent_xy \<Rightarrow> real extent_xy" where
  "merge_box box prev_box =
     Extent_xy
       (Vertex_xy (math_min (xy_x (xy_min box)) (xy_x (xy_min prev_box)))
                  (math_min (xy_y (xy_min box)) (xy_y (xy_min prev_box))))
       (Vertex_xy (math_max (xy_x (xy_max box)) (xy_x (xy_max prev_box)))
                  (math_max (xy_y (xy_max box)) (xy_y (xy_max prev_box))))"

definition parent_box :: "real extent_xy list \<Rightarrow> nat \<Rightarrow> real extent_xy" where
  "parent_box prev j =
     (let beg_idx = j * NODE_SIZE;
          end_idx = math_min (beg_idx + NODE_SIZE) (length prev)
      in fold (\<lambda>k box. merge_box box (prev ! k)) [beg_idx ..< end_idx] real_extent_xy_smallest)"

text \<open>The upper levels, from the one above the leaves to the root; \<open>bounds\<close> are their
  entry counts in that order.\<close>

fun upper_levels :: "nat list \<Rightarrow> real extent_xy list \<Rightarrow> real extent_xy list list" where
  "upper_levels [] prev = []"
| "upper_levels (n # bounds) prev =
     (let curr = map (parent_box prev) [0 ..< n] in curr # upper_levels bounds curr)"

definition build :: "prepared_geometry \<Rightarrow> prepared_geometry" where
  "build g =
     (if pg_type g \<noteq> LINESTRING then g
      else if pg_vertex_array g = [] then g
      else
        (let vs = pg_vertices_xy g;
             vertex_count = length vs;
             count = (vertex_count + NODE_SIZE - 1) div NODE_SIZE;
             layer_bound = rev (layer_bounds count 0);
             leaf = map (leaf_box vs) [0 ..< last layer_bound];
             upper = upper_levels (tl (rev layer_bound)) leaf
         in Prepared_geometry (pg_type g) (pg_has_z g) (pg_has_m g) (pg_vertex_array g) (pg_parts g)
              True (Prepared_index (rev (leaf # upper)) vertex_count)))"

text \<open>\<^verbatim>\<open>prepared_geometry::make\<close> copies the type, the flags and the vertex array, or prepares
  the parts, and builds the index.\<close>

fun make :: "real geometry \<Rightarrow> prepared_geometry" where
  "make (Geometry t z m vs ps) =
     build (if is_multi_part (Geometry t z m vs ps)
            then Prepared_geometry t z m [] (map make ps) False (Prepared_index [] 0)
            else Prepared_geometry t z m vs [] False (Prepared_index [] 0))"

subsection \<open>Distance between two prepared lines\<close>

definition point_segment_dist_sq :: "real vertex_xy \<Rightarrow> real vertex_xy \<Rightarrow> real vertex_xy \<Rightarrow> real" where
  "point_segment_dist_sq p a b =
     (let ab_x = xy_x b - xy_x a; ab_y = xy_y b - xy_y a;
          ap_x = xy_x p - xy_x a; ap_y = xy_y p - xy_y a;
          ab_len_sq = ab_x * ab_x + ab_y * ab_y
      in if ab_len_sq = 0 then ap_x * ap_x + ap_y * ap_y
         else
           (let t = math_clamp ((ap_x * ab_x + ap_y * ab_y) / ab_len_sq) 0 1;
                diff_x = xy_x p - (xy_x a + ab_x * t);
                diff_y = xy_y p - (xy_y a + ab_y * t)
            in diff_x * diff_x + diff_y * diff_y))"

text \<open>\<^verbatim>\<open>point_on_segment(p, q, r)\<close> tests its second argument \<open>q\<close> against the bounding box of
  its first and third.\<close>

definition point_on_segment :: "real vertex_xy \<Rightarrow> real vertex_xy \<Rightarrow> real vertex_xy \<Rightarrow> bool" where
  "point_on_segment p q r =
     (xy_x q \<ge> math_min (xy_x p) (xy_x r) \<and> xy_x q \<le> math_max (xy_x p) (xy_x r) \<and>
      xy_y q \<ge> math_min (xy_y p) (xy_y r) \<and> xy_y q \<le> math_max (xy_y p) (xy_y r))"

definition segment_intersects ::
    "real vertex_xy \<Rightarrow> real vertex_xy \<Rightarrow> real vertex_xy \<Rightarrow> real vertex_xy \<Rightarrow> bool" where
  "segment_intersects a1 a2 b1 b2 =
     (let a_is_point = (xy_x a1 = xy_x a2 \<and> xy_y a1 = xy_y a2);
          b_is_point = (xy_x b1 = xy_x b2 \<and> xy_y b1 = xy_y b2)
      in if a_is_point \<and> b_is_point then xy_x a1 = xy_x b1 \<and> xy_y a1 = xy_y b1
         else if a_is_point then point_on_segment a1 b1 b2
         else if b_is_point then point_on_segment b1 a1 a2
         else
           (let o1 = orient2d_fast a1 a2 b1;
                o2 = orient2d_fast a1 a2 b2;
                o3 = orient2d_fast b1 b2 a1;
                o4 = orient2d_fast b1 b2 a2
            in if o1 \<noteq> o2 \<and> o3 \<noteq> o4 then True
               else if o1 = 0 \<and> point_on_segment a1 b1 b2 then True
               else if o2 = 0 \<and> point_on_segment a2 b1 b2 then True
               else if o3 = 0 \<and> point_on_segment b1 a1 a2 then True
               else if o4 = 0 \<and> point_on_segment b2 a1 a2 then True
               else False))"

definition segment_segment_dist_sq ::
    "real vertex_xy \<Rightarrow> real vertex_xy \<Rightarrow> real vertex_xy \<Rightarrow> real vertex_xy \<Rightarrow> real" where
  "segment_segment_dist_sq a1 a2 b1 b2 =
     (if segment_intersects a1 a2 b1 b2 then 0
      else math_min (math_min (point_segment_dist_sq a1 b1 b2) (point_segment_dist_sq a2 b1 b2))
                    (math_min (point_segment_dist_sq b1 a1 a2) (point_segment_dist_sq b2 a1 a2)))"

text \<open>An entry of the priority queue: a pair of index nodes and the squared distance of
  their boxes.\<close>

datatype entry =
  Entry (entry_distance: real) (lhs_level: nat) (lhs_entry: nat) (rhs_level: nat) (rhs_entry: nat)

text \<open>The bounding box of one segment, as the leaf loops compute it with \<^verbatim>\<open>std::min\<close> and
  \<^verbatim>\<open>std::max\<close>.\<close>

definition segment_box :: "real vertex_xy \<Rightarrow> real vertex_xy \<Rightarrow> real extent_xy" where
  "segment_box prev nxt =
     Extent_xy (Vertex_xy (math_min (xy_x prev) (xy_x nxt)) (math_min (xy_y prev) (xy_y nxt)))
               (Vertex_xy (math_max (xy_x prev) (xy_x nxt)) (math_max (xy_y prev) (xy_y nxt)))"

text \<open>
  The two nested loops over the segments of a pair of leaves. The state is
  \<open>(min_dist, found_any)\<close>. A segment of length zero is passed over without moving
  \<open>prev\<close>; a segment whose box is farther than \<open>min_dist\<close> is passed over.
\<close>

fun leaf_inner_loop ::
    "real vertex_xy \<Rightarrow> real vertex_xy \<Rightarrow> real extent_xy \<Rightarrow> real vertex_xy \<Rightarrow> real vertex_xy list
     \<Rightarrow> double \<times> bool \<Rightarrow> double \<times> bool" where
  "leaf_inner_loop lhs_prev lhs_next lhs_seg rhs_prev [] state = state"
| "leaf_inner_loop lhs_prev lhs_next lhs_seg rhs_prev (rhs_next # rest) (min_dist, found_any) =
     (if xy_x rhs_prev = xy_x rhs_next \<and> xy_y rhs_prev = xy_y rhs_next
      then leaf_inner_loop lhs_prev lhs_next lhs_seg rhs_prev rest (min_dist, found_any)
      else if min_dist < Fin (distance_to_sq (segment_box rhs_prev rhs_next) lhs_seg)
      then leaf_inner_loop lhs_prev lhs_next lhs_seg rhs_next rest (min_dist, found_any)
      else
        (let d = segment_segment_dist_sq lhs_prev lhs_next rhs_prev rhs_next
         in leaf_inner_loop lhs_prev lhs_next lhs_seg rhs_next rest
              (if Fin d < min_dist then (Fin d, True) else (min_dist, found_any))))"

fun leaf_outer_loop ::
    "real extent_xy \<Rightarrow> real vertex_xy \<Rightarrow> real vertex_xy list \<Rightarrow> real vertex_xy \<Rightarrow> real vertex_xy list
     \<Rightarrow> double \<times> bool \<Rightarrow> double \<times> bool" where
  "leaf_outer_loop rhs_box lhs_prev [] rhs_first rhs_rest state = state"
| "leaf_outer_loop rhs_box lhs_prev (lhs_next # rest) rhs_first rhs_rest (min_dist, found_any) =
     (if xy_x lhs_prev = xy_x lhs_next \<and> xy_y lhs_prev = xy_y lhs_next
      then leaf_outer_loop rhs_box lhs_prev rest rhs_first rhs_rest (min_dist, found_any)
      else if min_dist < Fin (distance_to_sq (segment_box lhs_prev lhs_next) rhs_box)
      then leaf_outer_loop rhs_box lhs_next rest rhs_first rhs_rest (min_dist, found_any)
      else leaf_outer_loop rhs_box lhs_next rest rhs_first rhs_rest
             (leaf_inner_loop lhs_prev lhs_next (segment_box lhs_prev lhs_next) rhs_first rhs_rest
                (min_dist, found_any)))"

text \<open>A read of \<^verbatim>\<open>level_array[level].entry_array[e]\<close>; \<open>None\<close> outside the arrays.\<close>

definition entry_box :: "prepared_index \<Rightarrow> nat \<Rightarrow> nat \<Rightarrow> real extent_xy option" where
  "entry_box idx level e =
     (if level < level_count idx \<and> e < length (level_array idx ! level)
      then Some (level_array idx ! level ! e) else None)"

text \<open>The vertices \<open>beg_idx\<close> up to, and excluding, \<open>end_idx\<close>; \<open>items_count\<close> is the vertex
  count.\<close>

definition leaf_vertices :: "prepared_geometry \<Rightarrow> nat \<Rightarrow> nat \<Rightarrow> real vertex_xy list" where
  "leaf_vertices g beg_idx end_idx = take (end_idx - beg_idx) (drop beg_idx (pg_vertices_xy g))"

definition leaf_pair ::
    "prepared_geometry \<Rightarrow> prepared_geometry \<Rightarrow> entry \<Rightarrow> double \<times> bool \<Rightarrow> (double \<times> bool) option" where
  "leaf_pair lhs rhs pair state =
     (let lhs_beg_idx = lhs_entry pair * NODE_SIZE;
          lhs_end_idx = math_min (lhs_beg_idx + NODE_SIZE + 1) (items_count (index lhs));
          rhs_beg_idx = rhs_entry pair * NODE_SIZE;
          rhs_end_idx = math_min (rhs_beg_idx + NODE_SIZE + 1) (items_count (index rhs))
      in if lhs_beg_idx \<ge> lhs_end_idx \<or> rhs_beg_idx \<ge> rhs_end_idx then Some state
         else
           (case (entry_box (index rhs) (rhs_level pair) (rhs_entry pair),
                  leaf_vertices lhs lhs_beg_idx lhs_end_idx,
                  leaf_vertices rhs rhs_beg_idx rhs_end_idx) of
              (Some rhs_box, lhs_prev # lhs_rest, rhs_prev # rhs_rest) \<Rightarrow>
                Some (leaf_outer_loop rhs_box lhs_prev lhs_rest rhs_prev rhs_rest state)
            | _ \<Rightarrow> None))"

text \<open>
  The children of the left node, or of the right node, of a pair: those whose box is
  nearer than \<open>min_dist\<close> to the box of the other node are pushed; \<open>d\<close> is that distance
  as a function of the child's box.
\<close>

definition lhs_children ::
    "prepared_geometry \<Rightarrow> entry \<Rightarrow> (real extent_xy \<Rightarrow> real) \<Rightarrow> double \<Rightarrow> entry list option" where
  "lhs_children lhs pair d min_dist =
     (if Suc (lhs_level pair) < level_count (index lhs)
      then
        (let boxes = level_array (index lhs) ! Suc (lhs_level pair);
             beg_idx = lhs_entry pair * NODE_SIZE;
             end_idx = math_min (beg_idx + NODE_SIZE) (length boxes)
         in Some (map (\<lambda>i. Entry (d (boxes ! i)) (Suc (lhs_level pair)) i (rhs_level pair) (rhs_entry pair))
                      (filter (\<lambda>i. Fin (d (boxes ! i)) < min_dist) [beg_idx ..< end_idx])))
      else None)"

definition rhs_children ::
    "prepared_geometry \<Rightarrow> entry \<Rightarrow> (real extent_xy \<Rightarrow> real) \<Rightarrow> double \<Rightarrow> entry list option" where
  "rhs_children rhs pair d min_dist =
     (if Suc (rhs_level pair) < level_count (index rhs)
      then
        (let boxes = level_array (index rhs) ! Suc (rhs_level pair);
             beg_idx = rhs_entry pair * NODE_SIZE;
             end_idx = math_min (beg_idx + NODE_SIZE) (length boxes)
         in Some (map (\<lambda>i. Entry (d (boxes ! i)) (lhs_level pair) (lhs_entry pair) (Suc (rhs_level pair)) i)
                      (filter (\<lambda>i. Fin (d (boxes ! i)) < min_dist) [beg_idx ..< end_idx])))
      else None)"

text \<open>The three branches of the loop body that descend one level on one side.\<close>

definition expand ::
    "prepared_geometry \<Rightarrow> prepared_geometry \<Rightarrow> entry \<Rightarrow> double \<Rightarrow> entry list option" where
  "expand lhs rhs pair min_dist =
     (let lhs_is_leaf = (Suc (lhs_level pair) = level_count (index lhs));
          rhs_is_leaf = (Suc (rhs_level pair) = level_count (index rhs));
          lhs_box = entry_box (index lhs) (lhs_level pair) (lhs_entry pair);
          rhs_box = entry_box (index rhs) (rhs_level pair) (rhs_entry pair)
      in if lhs_is_leaf \<and> \<not> rhs_is_leaf
         then (case lhs_box of
                 Some lhs_box \<Rightarrow> rhs_children rhs pair (\<lambda>box. distance_to_sq lhs_box box) min_dist
               | None \<Rightarrow> None)
         else if \<not> lhs_is_leaf \<and> rhs_is_leaf
         then (case rhs_box of
                 Some rhs_box \<Rightarrow> lhs_children lhs pair (\<lambda>box. distance_to_sq rhs_box box) min_dist
               | None \<Rightarrow> None)
         else (case (lhs_box, rhs_box) of
                 (Some lhs_box, Some rhs_box) \<Rightarrow>
                   if extent_get_area lhs_box > extent_get_area rhs_box
                   then lhs_children lhs pair (\<lambda>box. distance_to_sq box rhs_box) min_dist
                   else rhs_children rhs pair (\<lambda>box. distance_to_sq box lhs_box) min_dist
               | _ \<Rightarrow> None))"

text \<open>
  The weight of a queue for the termination of the loop: a pair weighs
  \<open>(NODE_SIZE + 1)\<close> to the power of the number of levels left below it.
\<close>

definition entry_weight :: "prepared_geometry \<Rightarrow> prepared_geometry \<Rightarrow> entry \<Rightarrow> nat" where
  "entry_weight lhs rhs e =
     Suc NODE_SIZE ^ ((level_count (index lhs) - lhs_level e) + (level_count (index rhs) - rhs_level e))"

definition queue_weight :: "prepared_geometry \<Rightarrow> prepared_geometry \<Rightarrow> entry list \<Rightarrow> nat" where
  "queue_weight lhs rhs pq = sum_list (map (entry_weight lhs rhs) pq)"

lemma children_weight:
  assumes "\<And>i. i \<in> set js \<Longrightarrow> Suc NODE_SIZE * entry_weight lhs rhs (f i) = entry_weight lhs rhs pair"
    and "length js \<le> NODE_SIZE"
  shows "queue_weight lhs rhs (map f js) < entry_weight lhs rhs pair"
proof -
  have pos: "0 < entry_weight lhs rhs pair"
    by (simp add: entry_weight_def)
  have "Suc NODE_SIZE * queue_weight lhs rhs (map f js) = length js * entry_weight lhs rhs pair"
    using assms(1)
  proof (induction js)
    case Nil
    then show ?case by (simp add: queue_weight_def)
  next
    case (Cons i js)
    then have "Suc NODE_SIZE * queue_weight lhs rhs (map f js) = length js * entry_weight lhs rhs pair"
      by simp
    moreover have "Suc NODE_SIZE * entry_weight lhs rhs (f i) = entry_weight lhs rhs pair"
      using Cons.prems by simp
    ultimately show ?case
      by (simp add: queue_weight_def algebra_simps)
  qed
  also have "\<dots> \<le> NODE_SIZE * entry_weight lhs rhs pair"
    using assms(2) by simp
  also have "\<dots> < Suc NODE_SIZE * entry_weight lhs rhs pair"
    using pos by simp
  finally have "Suc NODE_SIZE * queue_weight lhs rhs (map f js) < Suc NODE_SIZE * entry_weight lhs rhs pair" .
  then show ?thesis
    unfolding mult_less_cancel1 by simp
qed

lemma child_range_length:
  "length (filter P [e * NODE_SIZE ..< math_min (e * NODE_SIZE + NODE_SIZE) n]) \<le> NODE_SIZE"
proof -
  have "length (filter P [e * NODE_SIZE ..< math_min (e * NODE_SIZE + NODE_SIZE) n])
          \<le> length [e * NODE_SIZE ..< math_min (e * NODE_SIZE + NODE_SIZE) n]"
    by (rule length_filter_le)
  also have "\<dots> \<le> NODE_SIZE"
    by (auto simp: math_min_def)
  finally show ?thesis .
qed

lemma lhs_children_weight:
  assumes "lhs_children lhs pair d min_dist = Some children"
  shows "queue_weight lhs rhs children < entry_weight lhs rhs pair"
proof -
  define boxes where "boxes = level_array (index lhs) ! Suc (lhs_level pair)"
  define f where "f = (\<lambda>i. Entry (d (boxes ! i)) (Suc (lhs_level pair)) i (rhs_level pair) (rhs_entry pair))"
  define js where "js = filter (\<lambda>i. Fin (d (boxes ! i)) < min_dist)
    [lhs_entry pair * NODE_SIZE ..< math_min (lhs_entry pair * NODE_SIZE + NODE_SIZE) (length boxes)]"
  from assms have deeper: "Suc (lhs_level pair) < level_count (index lhs)" and c: "children = map f js"
    by (auto simp: lhs_children_def Let_def boxes_def f_def js_def split: if_splits)
  from deeper have step:
    "level_count (index lhs) - lhs_level pair = Suc (level_count (index lhs) - Suc (lhs_level pair))"
    by arith
  have "Suc NODE_SIZE * entry_weight lhs rhs (f i) = entry_weight lhs rhs pair" for i
    using step by (simp add: entry_weight_def f_def)
  moreover have "length js \<le> NODE_SIZE"
    unfolding js_def by (rule child_range_length)
  ultimately show ?thesis
    unfolding c by (intro children_weight) auto
qed

lemma rhs_children_weight:
  assumes "rhs_children rhs pair d min_dist = Some children"
  shows "queue_weight lhs rhs children < entry_weight lhs rhs pair"
proof -
  define boxes where "boxes = level_array (index rhs) ! Suc (rhs_level pair)"
  define f where "f = (\<lambda>i. Entry (d (boxes ! i)) (lhs_level pair) (lhs_entry pair) (Suc (rhs_level pair)) i)"
  define js where "js = filter (\<lambda>i. Fin (d (boxes ! i)) < min_dist)
    [rhs_entry pair * NODE_SIZE ..< math_min (rhs_entry pair * NODE_SIZE + NODE_SIZE) (length boxes)]"
  from assms have deeper: "Suc (rhs_level pair) < level_count (index rhs)" and c: "children = map f js"
    by (auto simp: rhs_children_def Let_def boxes_def f_def js_def split: if_splits)
  from deeper have step:
    "level_count (index rhs) - rhs_level pair = Suc (level_count (index rhs) - Suc (rhs_level pair))"
    by arith
  have "Suc NODE_SIZE * entry_weight lhs rhs (f i) = entry_weight lhs rhs pair" for i
    using step by (simp add: entry_weight_def f_def)
  moreover have "length js \<le> NODE_SIZE"
    unfolding js_def by (rule child_range_length)
  ultimately show ?thesis
    unfolding c by (intro children_weight) auto
qed

lemma expand_weight:
  assumes "expand lhs rhs pair min_dist = Some children"
  shows "queue_weight lhs rhs children < entry_weight lhs rhs pair"
  using assms lhs_children_weight rhs_children_weight
  by (auto simp: expand_def Let_def split: if_splits option.splits)

text \<open>
  The top of the queue is an entry of the least distance. Between entries of the same
  distance the order of \<^verbatim>\<open>std::priority_queue\<close> is not specified; the first one pushed is
  taken here.
\<close>

definition pq_top :: "entry list \<Rightarrow> entry" where
  "pq_top pq = arg_min_list entry_distance pq"

definition pq_pop :: "entry list \<Rightarrow> entry list" where
  "pq_pop pq = remove1 (pq_top pq) pq"

lemma pq_pop_weight:
  assumes "pq \<noteq> []"
  shows "queue_weight lhs rhs pq = entry_weight lhs rhs (pq_top pq) + queue_weight lhs rhs (pq_pop pq)"
proof -
  have "pq_top pq \<in> set pq"
    using assms by (simp add: pq_top_def arg_min_list_in)
  then show ?thesis
    by (simp add: queue_weight_def pq_pop_def sum_list_map_remove1)
qed

text \<open>
  The loop of \<^verbatim>\<open>try_get_prepared_distance_lines\<close>. The result is the final
  \<open>(min_dist, found_any)\<close>, or \<open>None\<close> when a read falls outside the index.
\<close>

function pq_loop ::
    "prepared_geometry \<Rightarrow> prepared_geometry \<Rightarrow> entry list \<Rightarrow> double \<Rightarrow> bool \<Rightarrow> (double \<times> bool) option" where
  "pq_loop lhs rhs pq min_dist found_any =
     (if pq = [] \<or> \<not> (Fin 0 < min_dist) then Some (min_dist, found_any)
      else if min_dist \<le> Fin (entry_distance (pq_top pq)) \<and> found_any then Some (min_dist, found_any)
      else if Suc (lhs_level (pq_top pq)) = level_count (index lhs) \<and>
              Suc (rhs_level (pq_top pq)) = level_count (index rhs)
      then (case leaf_pair lhs rhs (pq_top pq) (min_dist, found_any) of
              None \<Rightarrow> None
            | Some (min_dist', found_any') \<Rightarrow> pq_loop lhs rhs (pq_pop pq) min_dist' found_any')
      else (case expand lhs rhs (pq_top pq) min_dist of
              None \<Rightarrow> None
            | Some children \<Rightarrow> pq_loop lhs rhs (pq_pop pq @ children) min_dist found_any))"
  by pat_completeness auto

termination pq_loop
proof (relation "measure (\<lambda>(lhs, rhs, pq, min_dist, found_any). queue_weight lhs rhs pq)")
  show "wf (measure (\<lambda>(lhs, rhs, pq, min_dist, found_any). queue_weight lhs rhs pq))"
    by simp
next
  fix lhs rhs :: prepared_geometry and pq :: "entry list" and min_dist :: double and found_any :: bool
  assume "\<not> (pq = [] \<or> \<not> Fin 0 < min_dist)"
  then have "queue_weight lhs rhs pq = entry_weight lhs rhs (pq_top pq) + queue_weight lhs rhs (pq_pop pq)"
    using pq_pop_weight by simp
  moreover have "0 < entry_weight lhs rhs (pq_top pq)"
    by (simp add: entry_weight_def)
  ultimately have less: "queue_weight lhs rhs (pq_pop pq) < queue_weight lhs rhs pq"
    by simp
  fix x2 x y
  show "((lhs, rhs, pq_pop pq, x, y), lhs, rhs, pq, min_dist, found_any)
          \<in> measure (\<lambda>(lhs, rhs, pq, min_dist, found_any). queue_weight lhs rhs pq)"
    using less by simp
next
  fix lhs rhs :: prepared_geometry and pq :: "entry list" and min_dist :: double and found_any :: bool
    and children :: "entry list"
  assume "\<not> (pq = [] \<or> \<not> Fin 0 < min_dist)"
    and "expand lhs rhs (pq_top pq) min_dist = Some children"
  then have "queue_weight lhs rhs pq = entry_weight lhs rhs (pq_top pq) + queue_weight lhs rhs (pq_pop pq)"
    and "queue_weight lhs rhs children < entry_weight lhs rhs (pq_top pq)"
    using pq_pop_weight expand_weight by simp_all
  then show "((lhs, rhs, pq_pop pq @ children, min_dist, found_any), lhs, rhs, pq, min_dist, found_any)
          \<in> measure (\<lambda>(lhs, rhs, pq, min_dist, found_any). queue_weight lhs rhs pq)"
    by (simp add: queue_weight_def)
qed

declare pq_loop.simps [simp del]

text \<open>
  \<^verbatim>\<open>try_get_prepared_distance_lines\<close>, which \<^verbatim>\<open>prepared_geometry::try_get_distance\<close> calls on
  the two prepared lines. The queue starts with the pair of roots; \<open>min_dist\<close> is a
  squared distance.
\<close>

datatype prepared_distance = Distance double | No_distance | Read_outside_index | Not_prepared

definition try_get_prepared_distance_lines :: "prepared_geometry \<Rightarrow> prepared_geometry \<Rightarrow> prepared_distance" where
  "try_get_prepared_distance_lines lhs rhs =
     (if \<not> (is_prepared lhs \<and> is_prepared rhs) then Not_prepared
      else if pg_is_empty lhs \<or> pg_is_empty rhs then No_distance
      else (case pq_loop lhs rhs [Entry 0 0 0 0 0] PInf False of
              None \<Rightarrow> Read_outside_index
            | Some (min_dist, found_any) \<Rightarrow> if found_any then Distance (dsqrt min_dist) else No_distance))"

definition try_get_distance :: "prepared_geometry \<Rightarrow> prepared_geometry \<Rightarrow> prepared_distance" where
  "try_get_distance this other = try_get_prepared_distance_lines this other"

text \<open>Two lines that are 4 apart: \<^verbatim>\<open>LINESTRING(0 0, 1 0)\<close> and \<^verbatim>\<open>LINESTRING(5 0, 5 3)\<close>. The
  first lies on the line through the start of the second.\<close>

definition parity_lhs :: "real geometry" where
  "parity_lhs = Geometry LINESTRING False False [Vertex 0 0 [], Vertex 1 0 []] []"

definition parity_rhs :: "real geometry" where
  "parity_rhs = Geometry LINESTRING False False [Vertex 5 0 [], Vertex 5 3 []] []"

section \<open>Lemmas: rounding\<close>

lemma ulp_pos: "0 < ulp x"
  by (simp add: ulp_def)


lemma round_half_even_of_int: "round_half_even (of_int n) = n"
  by (simp add: round_half_even_def)

lemma round_half_even_nonneg: "0 \<le> x \<Longrightarrow> 0 \<le> round_half_even x"
  by (auto simp: round_half_even_def)



lemma round_real_nonneg: "0 \<le> x \<Longrightarrow> 0 \<le> round_real x"
  using ulp_pos [of x] by (simp add: round_real_def round_half_even_nonneg)

lemma dbl_max_positive: "0 < dbl_max"
  by (simp add: dbl_max_def)


lemma rnd_nonneg: "0 \<le> x \<Longrightarrow> rnd x = PInf \<or> (\<exists>y\<ge>0. rnd x = Fin y)"
  using round_real_nonneg [of x] dbl_max_positive by (auto simp: rnd_def)

lemma two_pow_53_le_dbl_max: "(2::real) ^ 53 \<le> dbl_max"
proof -
  have "(2::real) ^ 53 * 1 \<le> (2 ^ 53 - 1) * 2 ^ 971"
    by simp
  then show ?thesis by (simp add: dbl_max_def)
qed

lemma round_real_int:
  assumes "\<bar>real_of_int n\<bar> < 2 ^ 53"
  shows "round_real (of_int n) = of_int n"
proof (cases "n = 0")
  case True
  then show ?thesis by (simp add: round_real_def round_half_even_def)
next
  case False
  define x where "x = real_of_int n"
  define e where "e = \<lfloor>log 2 \<bar>x\<bar>\<rfloor>"
  have "1 \<le> \<bar>n\<bar>"
    using False by simp
  then have "1 \<le> real_of_int \<bar>n\<bar>"
    by (simp only: of_int_1_le_iff)
  then have x1: "1 \<le> \<bar>x\<bar>"
    by (simp add: x_def)
  then have "0 \<le> log 2 \<bar>x\<bar>"
    by simp
  then have e0: "0 \<le> e"
    by (simp add: e_def)
  have "log 2 \<bar>x\<bar> < 53"
    using assms x1 unfolding x_def [symmetric] by (simp add: log_less_iff powr_realpow)
  then have e52: "e \<le> 52"
    unfolding e_def by (simp add: floor_le_iff)
  have u: "ulp x = 2 powr (of_int e - 52)"
    using e0 by (simp add: ulp_def e_def max_def)
  have "2 powr (52 - real_of_int e) = 2 powr (- (real_of_int e - 52))"
    by simp
  also have "\<dots> = 1 / 2 powr (real_of_int e - 52)"
    by (rule powr_minus_divide)
  finally have "1 / ulp x = 2 powr (52 - of_int e)"
    unfolding u by simp
  also have "\<dots> = 2 powr real (nat (52 - e))"
    using e52 by simp
  also have "\<dots> = 2 ^ nat (52 - e)"
    by (rule powr_realpow) simp
  finally have inv: "1 / ulp x = of_int (2 ^ nat (52 - e))"
    by simp
  have "x / ulp x = x * (1 / ulp x)"
    by simp
  also have "\<dots> = x * of_int (2 ^ nat (52 - e))"
    by (simp only: inv)
  also have "\<dots> = of_int (n * 2 ^ nat (52 - e))"
    by (simp add: x_def)
  finally have q: "x / ulp x = of_int (n * 2 ^ nat (52 - e))" .
  have "round_real x = of_int (n * 2 ^ nat (52 - e)) * ulp x"
    unfolding round_real_def q round_half_even_of_int ..
  also have "\<dots> = x / ulp x * ulp x"
    unfolding q ..
  also have "\<dots> = x"
    using ulp_pos [of x] by simp
  finally show ?thesis
    unfolding x_def .
qed

lemma rnd_int:
  assumes "x \<in> \<int>" and "\<bar>x\<bar> < 2 ^ 53"
  shows "rnd x = Fin x"
proof -
  from assms(1) obtain n where x: "x = of_int n"
    by (auto elim: Ints_cases)
  have r: "round_real x = x"
    using assms(2) unfolding x by (rule round_real_int)
  have "\<bar>x\<bar> \<le> dbl_max"
    using assms(2) two_pow_53_le_dbl_max by simp
  then show ?thesis
    by (auto simp: rnd_def r)
qed

lemma fabs_nonneg: "a \<noteq> NaN \<Longrightarrow> Fin 0 \<le> fabs a"
  by (cases a) (simp_all add: fabs_def less_eq_double_def)

lemma nonneg_cases: "Fin 0 \<le> a \<longleftrightarrow> a = PInf \<or> (\<exists>r\<ge>0. a = Fin r)"
  by (cases a) (auto simp: less_eq_double_def)

lemma rnd_nonneg_le: "0 \<le> x \<Longrightarrow> Fin 0 \<le> rnd x"
  using rnd_nonneg [of x] by (auto simp: nonneg_cases)

lemma PInf_nonneg: "Fin 0 \<le> PInf"
  by (simp add: less_eq_double_def)

lemma fadd_nonneg:
  assumes "Fin 0 \<le> a" and "Fin 0 \<le> b"
  shows "Fin 0 \<le> fadd a b"
proof -
  consider "a = PInf" | "b = PInf" | r s where "a = Fin r" "b = Fin s" "0 \<le> r" "0 \<le> s"
    using assms by (auto simp: nonneg_cases)
  then show ?thesis
  proof cases
    case 1
    then show ?thesis
      using assms(2) by (auto simp: nonneg_cases [of b] fadd_def round_double_def plus_double_def PInf_nonneg)
  next
    case 2
    then show ?thesis
      using assms(1) by (auto simp: nonneg_cases [of a] fadd_def round_double_def plus_double_def PInf_nonneg)
  next
    case 3
    then show ?thesis
      by (simp add: fadd_def round_double_def plus_double_def rnd_nonneg_le)
  qed
qed

lemma fmul_nonneg:
  assumes "Fin 0 \<le> a" and "Fin 0 \<le> b" and "is_finite a" and "is_finite b"
  shows "Fin 0 \<le> fmul a b"
proof -
  obtain r s where "a = Fin r" "b = Fin s" "0 \<le> r" "0 \<le> s"
    using assms by (auto simp: nonneg_cases is_finite_def)
  then show ?thesis
    by (simp add: fmul_def round_double_def times_double_def rnd_nonneg_le)
qed

lemma fsub_nonneg:
  assumes "is_finite h" and "h \<le> a"
  shows "Fin 0 \<le> fsub a h"
proof -
  obtain s where h: "h = Fin s"
    using assms(1) by (cases h) (simp_all add: is_finite_def)
  consider "a = PInf" | r where "a = Fin r" "s \<le> r"
    using assms(2) unfolding h by (cases a) (auto simp: less_eq_double_def)
  then show ?thesis
  proof cases
    case 1
    then show ?thesis
      by (simp add: h fsub_def round_double_def minus_double_def PInf_nonneg)
  next
    case 2
    then show ?thesis
      by (simp add: h fsub_def round_double_def minus_double_def rnd_nonneg_le)
  qed
qed

section \<open>Theorems: the smallest extent\<close>

lemma dbl_max_pos: "0 < dbl_max"
  by (simp add: dbl_max_def)

lemma math_min_smallest:
  "is_finite a \<Longrightarrow> math_min (Fin dbl_max) a = a"
  by (cases a) (auto simp: math_min_def is_finite_def less_double_def)

lemma math_max_smallest:
  "is_finite a \<Longrightarrow> math_max (Fin (- dbl_max)) a = a"
  by (cases a) (auto simp: math_max_def is_finite_def less_double_def)

text \<open>
  C9, as stated: \<^verbatim>\<open>smallest()\<close> would hold \<open>+\<infinity>\<close> in every min ordinate and \<open>-\<infinity>\<close> in every
  max ordinate. It does not: the ordinates are the largest and the lowest finite double.
\<close>

theorem smallest_not_infinite:
  "xy_min extent_xy_smallest \<noteq> Vertex_xy PInf PInf \<and>
   xy_max extent_xy_smallest \<noteq> Vertex_xy NInf NInf \<and>
   xyzm_min extent_xyzm_smallest \<noteq> Vertex_xyzm PInf PInf PInf PInf \<and>
   xyzm_max extent_xyzm_smallest \<noteq> Vertex_xyzm NInf NInf NInf NInf"
  by (simp add: extent_xy_smallest_def extent_xyzm_smallest_def)

text \<open>
  C9, amended: \<^verbatim>\<open>extent_xy::smallest()\<close> and \<^verbatim>\<open>extent_xyzm::smallest()\<close> hold the largest
  finite double in every min ordinate and the lowest finite double in every max
  ordinate, and merging any finite vertex into them with \<^verbatim>\<open>math::min\<close> and \<^verbatim>\<open>math::max\<close>
  gives an extent whose min and max are exactly that vertex.
\<close>

theorem smallest_merge_finite:
  assumes "is_finite a" and "is_finite b" and "is_finite c" and "is_finite d"
  shows "extent_xy_smallest =
           Extent_xy (Vertex_xy (Fin dbl_max) (Fin dbl_max))
                     (Vertex_xy (Fin (- dbl_max)) (Fin (- dbl_max))) \<and>
         extent_xyzm_smallest =
           Extent_xyzm (Vertex_xyzm (Fin dbl_max) (Fin dbl_max) (Fin dbl_max) (Fin dbl_max))
                       (Vertex_xyzm (Fin (- dbl_max)) (Fin (- dbl_max)) (Fin (- dbl_max))
                                    (Fin (- dbl_max))) \<and>
         merge_xy extent_xy_smallest (Vertex_xy a b) =
           Extent_xy (Vertex_xy a b) (Vertex_xy a b) \<and>
         merge_xyzm extent_xyzm_smallest (Vertex_xyzm a b c d) =
           Extent_xyzm (Vertex_xyzm a b c d) (Vertex_xyzm a b c d)"
  using assms
  by (simp add: extent_xy_smallest_def extent_xyzm_smallest_def merge_xy_def merge_xyzm_def
                math_min_smallest math_max_smallest)

theorem smallest_merge_finite_witness:
  "is_finite (Fin 1) \<and> is_finite (Fin (- 2)) \<and> is_finite (Fin 0) \<and> is_finite (Fin dbl_max) \<and>
   merge_xy extent_xy_smallest (Vertex_xy (Fin 1) (Fin (- 2))) =
     Extent_xy (Vertex_xy (Fin 1) (Fin (- 2))) (Vertex_xy (Fin 1) (Fin (- 2))) \<and>
   merge_xyzm extent_xyzm_smallest (Vertex_xyzm (Fin 1) (Fin (- 2)) (Fin 0) (Fin dbl_max)) =
     Extent_xyzm (Vertex_xyzm (Fin 1) (Fin (- 2)) (Fin 0) (Fin dbl_max))
                 (Vertex_xyzm (Fin 1) (Fin (- 2)) (Fin 0) (Fin dbl_max))"
proof -
  have f: "is_finite (Fin 1)" "is_finite (Fin (- 2))" "is_finite (Fin 0)" "is_finite (Fin dbl_max)"
    by (simp_all add: is_finite_def dbl_max_def)
  from smallest_merge_finite [OF f] f show ?thesis by simp
qed


section \<open>Theorems: closed linestrings\<close>

text \<open>
  C10, as stated: with two or more vertices \<^verbatim>\<open>is_closed\<close> would be true exactly when the
  first and the last vertex agree bitwise. Two vertices holding the same NaN agree
  bitwise, and the linestring is not closed.
\<close>

theorem is_closed_not_bitwise:
  "get_vertex_count nan_line = 2 \<and>
   ordinates_xyzm nan_line (hd (vertex_array nan_line)) =
     ordinates_xyzm nan_line (last (vertex_array nan_line)) \<and>
   \<not> is_closed nan_line"
  by (simp add: nan_line_def is_closed_def get_vertex_count_def get_vertex_xyzm_def
                ordinates_xyzm_def read_xyzm_def vertex_ordinates_def)

lemma read_xyzm_cases:
  assumes "2 + length (vzm v) = vertex_ordinates g"
  shows "read_xyzm (vertex_ordinates g) v =
     (if has_z g then ordinates_xyzm g v
      else Vertex_xyzm (vx v) (vy v) (xyzm_m (ordinates_xyzm g v)) 0)"
proof -
  consider (zm) "has_z g" "has_m g" | (z) "has_z g" "\<not> has_m g"
    | (m) "\<not> has_z g" "has_m g" | (none) "\<not> has_z g" "\<not> has_m g"
    by blast
  then show ?thesis
  proof cases
    case zm
    with assms have "length (vzm v) = 2" by (simp add: vertex_ordinates_def)
    then obtain a b where "vzm v = [a, b]"
      by (auto simp: length_Suc_conv numeral_2_eq_2)
    with zm show ?thesis
      by (simp add: read_xyzm_def vertex_ordinates_def ordinates_xyzm_def)
  next
    case z
    with assms have "length (vzm v) = 1" by (simp add: vertex_ordinates_def)
    then obtain a where "vzm v = [a]"
      by (auto simp: length_Suc_conv)
    with z show ?thesis
      by (simp add: read_xyzm_def vertex_ordinates_def ordinates_xyzm_def)
  next
    case m
    with assms have "length (vzm v) = 1" by (simp add: vertex_ordinates_def)
    then obtain a where "vzm v = [a]"
      by (auto simp: length_Suc_conv)
    with m show ?thesis
      by (simp add: read_xyzm_def vertex_ordinates_def ordinates_xyzm_def)
  next
    case none
    with assms have "vzm v = []" by (simp add: vertex_ordinates_def)
    with none show ?thesis
      by (simp add: read_xyzm_def vertex_ordinates_def ordinates_xyzm_def)
  qed
qed

lemma deq_zero: "deq (0::double) 0"
  by (simp add: zero_double_def)

text \<open>
  C10, amended: \<^verbatim>\<open>linestring::is_closed\<close> is false for every linestring with fewer than two
  vertices; with two or more vertices it is true exactly when the first and the last
  vertex compare equal with \<^verbatim>\<open>==\<close> in all four ordinates x, y, z, m, an ordinate the
  geometry does not carry being read as 0 (so a NaN ordinate is never closed).
\<close>

theorem is_closed_iff:
  assumes "well_formed_leaf g"
  shows "is_closed g \<longleftrightarrow>
           2 \<le> get_vertex_count g \<and>
           deq (xyzm_x (ordinates_xyzm g (hd (vertex_array g))))
               (xyzm_x (ordinates_xyzm g (last (vertex_array g)))) \<and>
           deq (xyzm_y (ordinates_xyzm g (hd (vertex_array g))))
               (xyzm_y (ordinates_xyzm g (last (vertex_array g)))) \<and>
           deq (xyzm_z (ordinates_xyzm g (hd (vertex_array g))))
               (xyzm_z (ordinates_xyzm g (last (vertex_array g)))) \<and>
           deq (xyzm_m (ordinates_xyzm g (hd (vertex_array g))))
               (xyzm_m (ordinates_xyzm g (last (vertex_array g))))"
proof (cases "get_vertex_count g < 2")
  case True
  then show ?thesis by (simp add: is_closed_def)
next
  case False
  then have ne: "vertex_array g \<noteq> []"
    by (auto simp: get_vertex_count_def)
  have wh: "2 + length (vzm (hd (vertex_array g))) = vertex_ordinates g"
    using assms ne by (simp add: well_formed_leaf_def)
  have wl: "2 + length (vzm (last (vertex_array g))) = vertex_ordinates g"
    using assms ne by (simp add: well_formed_leaf_def)
  have g0: "get_vertex_xyzm g 0 = Some (read_xyzm (vertex_ordinates g) (hd (vertex_array g)))"
    using ne by (simp add: get_vertex_xyzm_def get_vertex_count_def hd_conv_nth)
  have gn: "get_vertex_xyzm g (get_vertex_count g - 1) =
              Some (read_xyzm (vertex_ordinates g) (last (vertex_array g)))"
    using ne by (simp add: get_vertex_xyzm_def get_vertex_count_def last_conv_nth)
  have "is_closed g \<longleftrightarrow>
          deq (xyzm_x (read_xyzm (vertex_ordinates g) (hd (vertex_array g))))
              (xyzm_x (read_xyzm (vertex_ordinates g) (last (vertex_array g)))) \<and>
          deq (xyzm_y (read_xyzm (vertex_ordinates g) (hd (vertex_array g))))
              (xyzm_y (read_xyzm (vertex_ordinates g) (last (vertex_array g)))) \<and>
          deq (xyzm_z (read_xyzm (vertex_ordinates g) (hd (vertex_array g))))
              (xyzm_z (read_xyzm (vertex_ordinates g) (last (vertex_array g)))) \<and>
          deq (xyzm_m (read_xyzm (vertex_ordinates g) (hd (vertex_array g))))
              (xyzm_m (read_xyzm (vertex_ordinates g) (last (vertex_array g))))"
    using False unfolding is_closed_def g0 gn by simp
  also have "\<dots> \<longleftrightarrow>
          deq (xyzm_x (ordinates_xyzm g (hd (vertex_array g))))
              (xyzm_x (ordinates_xyzm g (last (vertex_array g)))) \<and>
          deq (xyzm_y (ordinates_xyzm g (hd (vertex_array g))))
              (xyzm_y (ordinates_xyzm g (last (vertex_array g)))) \<and>
          deq (xyzm_z (ordinates_xyzm g (hd (vertex_array g))))
              (xyzm_z (ordinates_xyzm g (last (vertex_array g)))) \<and>
          deq (xyzm_m (ordinates_xyzm g (hd (vertex_array g))))
              (xyzm_m (ordinates_xyzm g (last (vertex_array g))))"
    unfolding read_xyzm_cases [OF wh] read_xyzm_cases [OF wl]
    by (auto simp: deq_zero ordinates_xyzm_def)
  finally show ?thesis using False by simp
qed

theorem is_closed_iff_witness:
  "well_formed_leaf (Geometry LINESTRING False True
      [Vertex (Fin 0) (Fin 0) [Fin 5], Vertex (Fin 1) (Fin 0) [Fin 6], Vertex (Fin 0) (Fin 0) [Fin 5]] []) \<and>
   is_closed (Geometry LINESTRING False True
      [Vertex (Fin 0) (Fin 0) [Fin 5], Vertex (Fin 1) (Fin 0) [Fin 6], Vertex (Fin 0) (Fin 0) [Fin 5]] [])"
proof -
  let ?g = "Geometry LINESTRING False True
      [Vertex (Fin 0) (Fin 0) [Fin 5], Vertex (Fin 1) (Fin 0) [Fin 6], Vertex (Fin 0) (Fin 0) [Fin 5]] []"
  have w: "well_formed_leaf ?g"
    by (simp add: well_formed_leaf_def vertex_ordinates_def)
  from is_closed_iff [OF w] w show ?thesis
    by (simp add: get_vertex_count_def ordinates_xyzm_def zero_double_def)
qed


section \<open>Theorems: areas\<close>

lemmas rounded_arith =
  fadd_def fsub_def fmul_def round_double_def plus_double_def minus_double_def times_double_def
  signed_inf_def Let_def

lemma square_ring_1_area: "vertex_array_signed_area (square_ring 1) = Fin 1"
  by (simp add: vertex_array_signed_area_def square_ring_def rounded_arith rnd_int
      upt_rec [of 1] upt_rec [of 2] upt_rec [of 3] upt_rec [of 4])

lemma square_ring_2_area: "vertex_array_signed_area (square_ring 2) = Fin 4"
  by (simp add: vertex_array_signed_area_def square_ring_def rounded_arith rnd_int
      upt_rec [of 1] upt_rec [of 2] upt_rec [of 3] upt_rec [of 4])

lemma infinite_ring_area: "vertex_array_signed_area infinite_ring = NInf"
  by (simp add: vertex_array_signed_area_def infinite_ring_def rounded_arith rnd_int
      upt_rec [of 1] upt_rec [of 2])

lemma nan_shell_area:
  "vertex_array_signed_area
     (Geometry LINESTRING False False
        [Vertex NaN (Fin 0) [], Vertex (Fin 0) (Fin 1) [], Vertex (Fin 1) (Fin 1) [],
         Vertex NaN (Fin 0) []] []) = NaN"
  by (simp add: vertex_array_signed_area_def rounded_arith rnd_int
      upt_rec [of 1] upt_rec [of 2] upt_rec [of 3])

text \<open>
  C3, as stated: \<^verbatim>\<open>get_area(g)\<close> would be at least 0 for every geometry. A polygon whose
  hole has a larger area than its shell has the area \<open>1 - 4 = - 3\<close>; the area of a polygon
  with a NaN ordinate is NaN; and so is the area of a polygon whose hole has an infinite
  area, although the running area is not smaller. NaN is not at least 0.
\<close>

theorem get_area_negative:
  "get_area hole_larger_than_shell = Fin (- 3) \<and> \<not> Fin 0 \<le> get_area hole_larger_than_shell \<and>
   get_area nan_shell = NaN \<and> \<not> Fin 0 \<le> get_area nan_shell \<and>
   get_area infinite_hole = NaN \<and> \<not> Fin 0 \<le> get_area infinite_hole"
proof -
  have 1: "get_area hole_larger_than_shell = Fin (- 3)"
    by (simp add: get_area_def hole_larger_than_shell_def get_area_polygon_def square_ring_1_area
        square_ring_2_area fabs_def rounded_arith rnd_int)
  have 2: "get_area nan_shell = NaN"
    by (simp add: get_area_def nan_shell_def get_area_polygon_def nan_shell_area fabs_def
        rounded_arith)
  have 3: "get_area infinite_hole = NaN"
    by (simp add: get_area_def infinite_hole_def get_area_polygon_def infinite_ring_area fabs_def
        rounded_arith rnd_int)
  show ?thesis
    unfolding 1 2 3 by (simp add: less_eq_double_def)
qed

lemma holes_fold_nonneg:
  "holes_fit area rest \<Longrightarrow>
   Fin 0 \<le> fold (\<lambda>ring a. fsub a (fabs (vertex_array_signed_area ring))) rest area \<or> rest = []"
proof (induction rest arbitrary: area)
  case Nil
  then show ?case by simp
next
  case (Cons ring rest)
  then have fit: "holes_fit (fsub area (fabs (vertex_array_signed_area ring))) rest"
    and sub: "Fin 0 \<le> fsub area (fabs (vertex_array_signed_area ring))"
    by (auto intro: fsub_nonneg)
  show ?case
  proof (cases rest)
    case Nil
    then show ?thesis using sub by simp
  next
    case (Cons r rs)
    then show ?thesis using Cons.IH [OF fit] by simp
  qed
qed

lemma get_area_polygon_nonneg:
  assumes "Fin 0 \<le> area"
    and "case parts part of [] \<Rightarrow> True
         | head # holes \<Rightarrow> vertex_array_signed_area head \<noteq> NaN \<and>
             holes_fit (fadd area (fabs (vertex_array_signed_area head))) holes"
  shows "Fin 0 \<le> get_area_polygon part area"
proof (cases "parts part")
  case Nil
  then show ?thesis using assms(1) by (simp add: get_area_polygon_def)
next
  case (Cons head holes)
  then have shell: "vertex_array_signed_area head \<noteq> NaN"
    and fit: "holes_fit (fadd area (fabs (vertex_array_signed_area head))) holes"
    using assms(2) by simp_all
  have start: "Fin 0 \<le> fadd area (fabs (vertex_array_signed_area head))"
    using assms(1) shell by (intro fadd_nonneg fabs_nonneg)
  show ?thesis
    using holes_fold_nonneg [OF fit] start Cons by (auto simp: get_area_polygon_def)
qed

lemma polygons_fold_nonneg:
  "Fin 0 \<le> area \<Longrightarrow> polygons_fit area ps \<Longrightarrow> Fin 0 \<le> fold get_area_polygon ps area"
proof (induction ps arbitrary: area)
  case Nil
  then show ?case by simp
next
  case (Cons part rest)
  have "Fin 0 \<le> get_area_polygon part area"
    using Cons.prems by (intro get_area_polygon_nonneg) simp_all
  moreover have "polygons_fit (get_area_polygon part area) rest"
    using Cons.prems by simp
  ultimately show ?case
    using Cons.IH by simp
qed

text \<open>
  C3, amended: \<^verbatim>\<open>get_area(g)\<close> adds, polygon by polygon, the absolute signed area of the
  shell to a running area and subtracts that of every hole from it. The result is at
  least 0 whenever the signed area of no shell is NaN and the absolute signed area of
  every hole is finite and not larger than the running area it is subtracted from.
\<close>

theorem get_area_nonneg:
  "subtractions_fit g \<Longrightarrow> Fin 0 \<le> get_area g"
  unfolding subtractions_fit_def get_area_def
  by (rule polygons_fold_nonneg) (simp_all add: less_eq_double_def)

theorem get_area_nonneg_witness:
  "subtractions_fit donut \<and> get_area donut = Fin 3 \<and> Fin 0 \<le> get_area donut"
proof -
  have f: "subtractions_fit donut"
    by (simp add: subtractions_fit_def donut_def square_ring_1_area square_ring_2_area fabs_def
        is_finite_def dbl_max_def less_eq_double_def rounded_arith rnd_int)
  have a: "get_area donut = Fin 3"
    by (simp add: get_area_def donut_def get_area_polygon_def square_ring_1_area
        square_ring_2_area fabs_def rounded_arith rnd_int)
  from get_area_nonneg [OF f] f a show ?thesis
    by simp
qed

section \<open>Theorems: the polygon of a bounding box\<close>








section \<open>Theorems: point in ring\<close>





















section \<open>Theorems: the stack of the WKB reader\<close>

lemma parse_header_collection:
  assumes "input r = collection_header @ rest"
  shows "parse_header r = (Some 7, r\<lparr>input := 1 # 0 # 0 # 0 # rest, le := True, type_id := 7\<rparr>)"
  using assms
  by (simp add: parse_header_def read_u8_def read_u32_def collection_header_def bytes_value_def
                decode_has_srid_def)

lemma read_count_one:
  assumes "input r = 1 # 0 # 0 # 0 # rest" and "le r"
  shows "read_u32 r = (Some 1, r\<lparr>input := rest\<rparr>)"
  using assms by (simp add: read_u32_def bytes_value_def)

lemma decode_collection:
  "decode_type 7 = Some GEOMETRY_COLLECTION" "\<not> decode_has_z 7" "\<not> decode_has_m 7"
  by (simp_all add: decode_type_def decode_has_z_def decode_has_m_def)

lemma parse_step_collection:
  assumes "input r = collection_header @ rest" and "flat geom" and "flat (last (geom # fs))"
  shows "parse_step r geom fs =
     (if MAX_STACK_DEPTH \<le> stack_depth r
      then Stop Failed (r\<lparr>input := 1 # 0 # 0 # 0 # rest, le := True, type_id := 7,
                           error := RECURSION_LIMIT\<rparr>)
      else if STACK_BUF_SIZE \<le> stack_depth r
      then Stop (Stack_buf_overrun (stack_depth r)) (r\<lparr>input := rest, le := True, type_id := 7\<rparr>)
      else Continue (r\<lparr>input := rest, le := True, type_id := 7,
                        stack_buf := (stack_buf r)[stack_depth r := 1],
                        stack_depth := stack_depth r + 1\<rparr>)
                    (Geometry INVALID False False [] [])
                    (set_type GEOMETRY_COLLECTION geom # fs))"
proof -
  let ?r1 = "r\<lparr>input := 1 # 0 # 0 # 0 # rest, le := True, type_id := 7\<rparr>"
  have g: "set_m False (set_z False geom) = geom"
    using assms(2) by (cases geom) (simp add: flat_def set_m_def set_z_def)
  have c: "compare_with_root ?r1 (last (geom # fs)) False False = (False, ?r1)"
    using assms(3) by (simp add: compare_with_root_def flat_def)
  have u: "read_u32 ?r1 = (Some 1, ?r1\<lparr>input := rest\<rparr>)"
    by (rule read_count_one) simp_all
  have "parse_step r geom fs =
          parse_payload ?r1 GEOMETRY_COLLECTION False False (set_type GEOMETRY_COLLECTION geom) fs"
    unfolding parse_step_def parse_header_collection [OF assms(1)]
    by (simp add: decode_collection g c del: last.simps)
  then show ?thesis
    by (simp add: parse_payload_def u)
qed

lemma flat_set_type: "flat (set_type t g) = flat g"
  by (simp add: flat_def set_type_def)

lemma nested_overrun:
  assumes "input r = concat (replicate (Suc k) collection_header) @ rest"
    and "stack_depth r + k = STACK_BUF_SIZE"
    and "flat geom" and "flat (last (geom # fs))"
  shows "fst (parse_loop r geom fs) = Stack_buf_overrun STACK_BUF_SIZE"
  using assms
proof (induction k arbitrary: r geom fs)
  case 0
  then have "input r = collection_header @ rest" by simp
  from parse_step_collection [OF this 0(3) 0(4)] 0(2)
  show ?case
    by (simp add: STACK_BUF_SIZE_def MAX_STACK_DEPTH_def)
next
  case (Suc k)
  have i: "input r = collection_header @ (concat (replicate (Suc k) collection_header) @ rest)"
    using Suc.prems(1) by simp
  let ?r' = "r\<lparr>input := concat (replicate (Suc k) collection_header) @ rest, le := True,
                type_id := 7, stack_buf := (stack_buf r)[stack_depth r := 1],
                stack_depth := stack_depth r + 1\<rparr>"
  have s: "parse_step r geom fs =
             Continue ?r' (Geometry INVALID False False [] []) (set_type GEOMETRY_COLLECTION geom # fs)"
    using parse_step_collection [OF i Suc.prems(3) Suc.prems(4)] Suc.prems(2)
    by (simp add: STACK_BUF_SIZE_def MAX_STACK_DEPTH_def)
  have l: "flat (last (Geometry INVALID False False [] [] # set_type GEOMETRY_COLLECTION geom # fs))"
    using Suc.prems(4) by (cases fs) (simp_all add: flat_set_type)
  have "fst (parse_loop ?r' (Geometry INVALID False False [] [])
                (set_type GEOMETRY_COLLECTION geom # fs)) = Stack_buf_overrun STACK_BUF_SIZE"
    by (rule Suc.IH) (use Suc.prems(2) l in \<open>simp_all add: flat_def\<close>)
  then show ?case
    using s by simp
qed

text \<open>
  C4: the claim asks that every write to \<^verbatim>\<open>stack_buf\<close> stay within its declared bounds.
  On the WKB of seventeen nested collections \<^verbatim>\<open>try_parse\<close> writes the count of the
  seventeenth at index 16 of the sixteen elements: the depth 16 passes the only check,
  against \<^verbatim>\<open>MAX_STACK_DEPTH = 32\<close>.
\<close>

theorem try_parse_stack_buf_overrun:
  "fst (try_parse wkb_reader_new geometry_default (nested_collections 17)) = Stack_buf_overrun 16"
proof -
  have "nested_collections 17 = concat (replicate (Suc 16) collection_header) @ point_wkb"
    by (simp add: nested_collections_def)
  then show ?thesis
    unfolding try_parse_def
    using nested_overrun [where k = 16 and rest = point_wkb and fs = "[]"
                            and geom = geometry_default]
    by (simp add: STACK_BUF_SIZE_def wkb_reader_new_def flat_def geometry_default_def)
qed


section \<open>Theorems: substrings\<close>

lemmas double_arith =
  plus_double_def minus_double_def times_double_def divide_double_def zero_double_def
  one_double_def less_double_def

lemma get_length_repeated_start: "get_length repeated_start = Fin 1"
  by (simp add: get_length_def repeated_start_def vertex_array_length_def get_vertex_count_def
                vertices_xy_def double_arith)

lemma substring_repeated_start_value:
  "substring repeated_start (Fin 0) (Fin (1 / 2)) geometry_default =
     Some (Geometry LINESTRING False False
             [Vertex NaN NaN [], Vertex (Fin 0) (Fin 0) [], Vertex (Fin (1 / 2)) (Fin 0) []] [])"
  unfolding substring_def get_length_repeated_start
  by (simp add: repeated_start_def geometry_default_def set_m_def set_z_def set_type_def
                set_vertex_array_def is_empty_def is_multi_part_def math_min_def math_max_def
                vertex_ordinates_def read_xyzm_def write_xyzm_def along_def dge_def double_arith Let_def)

text \<open>
  C7: the claim asks that the length of \<^verbatim>\<open>substring(L, a, b)\<close> be \<open>(b - a)\<close> times the length
  of \<open>L\<close>. On \<^verbatim>\<open>LINESTRING(0 0, 0 0, 1 0)\<close> with \<open>a = 0\<close> and \<open>b = 1/2\<close> the first segment has
  length 0 and reaches the start length 0, so the start point is computed with the
  fraction \<open>0 / 0\<close>: its ordinates are NaN and so is the length of the result, where the
  claim gives \<open>1/2\<close>.
\<close>

theorem substring_length_nan:
  "substring repeated_start (Fin 0) (Fin (1 / 2)) geometry_default =
     Some (Geometry LINESTRING False False
             [Vertex NaN NaN [], Vertex (Fin 0) (Fin 0) [], Vertex (Fin (1 / 2)) (Fin 0) []] []) \<and>
   get_length (Geometry LINESTRING False False
             [Vertex NaN NaN [], Vertex (Fin 0) (Fin 0) [], Vertex (Fin (1 / 2)) (Fin 0) []] []) = NaN \<and>
   (Fin (1 / 2) - Fin 0) * get_length repeated_start = Fin (1 / 2)"
  by (simp add: substring_repeated_start_value get_length_repeated_start)
     (simp add: get_length_def vertex_array_length_def get_vertex_count_def vertices_xy_def
                double_arith)


section \<open>Theorems: mixed Z and M in WKT\<close>


lemma uniform_leaf: "uniform_zm z m (Geometry t z m vs [])"
  by simp






















section \<open>Theorems: prepared and unprepared distance of two lines\<close>

lemma sqrt_16: "sqrt 16 = 4"
  using real_sqrt_abs [of 4] by simp

lemma sqrt_25: "sqrt 25 = 5"
  using real_sqrt_abs [of 5] by simp

lemma layer_bounds_one: "layer_bounds (Suc 0) 0 = [Suc 0]"
  by (subst layer_bounds.simps) simp

text \<open>The index of a line of two vertices: one level with one box.\<close>

lemma make_line2:
  "make (Geometry LINESTRING False False [v, w] []) =
     Prepared_geometry LINESTRING False False [v, w] [] True
       (Prepared_index [[leaf_box [Vertex_xy (vx v) (vy v), Vertex_xy (vx w) (vy w)] 0]] 2)"
  by (simp add: build_def is_multi_part_def pg_vertices_xy_def NODE_SIZE_def layer_bounds_one Let_def)

lemma make_parity_lhs:
  "make parity_lhs =
     Prepared_geometry LINESTRING False False [Vertex 0 0 [], Vertex 1 0 []] [] True
       (Prepared_index [[leaf_box [Vertex_xy 0 0, Vertex_xy 1 0] 0]] 2)"
  unfolding parity_lhs_def make_line2 by simp

lemma make_parity_rhs:
  "make parity_rhs =
     Prepared_geometry LINESTRING False False [Vertex 5 0 [], Vertex 5 3 []] [] True
       (Prepared_index [[leaf_box [Vertex_xy 5 0, Vertex_xy 5 3] 0]] 2)"
  unfolding parity_rhs_def make_line2 by simp

text \<open>
  The only pair of segments: \<open>o1 = 0\<close>, since \<open>(5, 0)\<close> is on the line through \<open>(0, 0)\<close> and
  \<open>(1, 0)\<close>, and \<^verbatim>\<open>point_on_segment(a1, b1, b2)\<close> finds \<open>b1 = (5, 0)\<close> in the box of
  \<open>a1 = (0, 0)\<close> and \<open>b2 = (5, 3)\<close>: the segments are taken to intersect.
\<close>

lemma parity_segments_intersect:
  "segment_intersects (Vertex_xy 0 0) (Vertex_xy 1 0) (Vertex_xy 5 0) (Vertex_xy 5 3)"
  by (simp add: segment_intersects_def orient2d_fast_def point_on_segment_def math_min_def
      math_max_def Let_def)

lemma parity_leaf_pair:
  "leaf_pair (make parity_lhs) (make parity_rhs) (Entry 0 0 0 0 0) (PInf, False) = Some (Fin 0, True)"
  unfolding make_parity_lhs make_parity_rhs
  by (simp add: leaf_pair_def NODE_SIZE_def math_min_def entry_box_def level_count_def
      leaf_vertices_def pg_vertices_xy_def Let_def less_double_def segment_segment_dist_sq_def
      parity_segments_intersect)

lemma parity_pq_loop:
  "pq_loop (make parity_lhs) (make parity_rhs) [Entry 0 0 0 0 0] PInf False = Some (Fin 0, True)"
proof -
  have levels: "level_count (index (make parity_lhs)) = 1" "level_count (index (make parity_rhs)) = 1"
    unfolding make_parity_lhs make_parity_rhs by (simp_all add: level_count_def)
  show ?thesis
    apply (subst pq_loop.simps)
    apply (simp add: pq_top_def pq_pop_def less_double_def less_eq_double_def parity_leaf_pair levels)
    apply (subst pq_loop.simps)
    apply simp
    done
qed

lemma parity_prepared:
  "try_get_distance (make parity_lhs) (make parity_rhs) = Distance (Fin 0)"
proof -
  have "is_prepared (make parity_lhs)" "is_prepared (make parity_rhs)"
    "\<not> pg_is_empty (make parity_lhs)" "\<not> pg_is_empty (make parity_rhs)"
    unfolding make_parity_lhs make_parity_rhs by (simp_all add: pg_is_empty_def)
  then show ?thesis
    by (simp add: try_get_distance_def try_get_prepared_distance_lines_def parity_pq_loop)
qed

lemma parity_unprepared:
  "distance_lines_lines parity_lhs parity_rhs PInf = Some (True, Fin 4)"
  by (simp add: distance_lines_lines_def parity_lhs_def parity_rhs_def is_empty_def is_multi_part_def
      vertices_xy_def get_vertex_count_def segment_segment_distance_def vertex_segment_distance_def
      vertex_distance_squared_def vertex_distance_def distance_result_set_def math_min_def math_max_def
      less_double_def Let_def sqrt_16 sqrt_25)

text \<open>
  C1: the distance of two prepared lines is the distance of the lines. It fails on
  \<^verbatim>\<open>LINESTRING(0 0, 1 0)\<close> and \<^verbatim>\<open>LINESTRING(5 0, 5 3)\<close>: prepared with
  \<^verbatim>\<open>prepared_geometry::make\<close>, \<^verbatim>\<open>try_get_distance\<close> finds the distance 0; the segment loop of
  \<^verbatim>\<open>distance_lines_lines\<close> on the same lines, and \<^verbatim>\<open>get_euclidean_distance\<close> with it, finds 4.
\<close>

theorem prepared_distance_differs:
  "try_get_distance (make parity_lhs) (make parity_rhs) = Distance (Fin 0) \<and>
   distance_lines_lines parity_lhs parity_rhs PInf = Some (True, Fin 4) \<and>
   get_euclidean_distance parity_lhs parity_rhs = Some (True, Fin 4)"
proof -
  have "get_euclidean_distance parity_lhs parity_rhs = Some (True, Fin 4)"
    using parity_unprepared
    by (simp add: get_euclidean_distance_def distance_callback_def distance_dispatch_def
        parity_lhs_def parity_rhs_def)
  then show ?thesis
    using parity_prepared parity_unprepared by simp
qed

end
